theory Spec2Isabelle
  imports Main
begin

section \<open>Model registry (web/src/lib/models/config.ts)\<close>

text \<open>
  The type \<open>ModelProvider\<close> is the union \<open>'openai' | 'anthropic' | 'openrouter'\<close>;
  \<open>ModelConfig\<close> is the object type of a registry entry. The field names carry the
  prefix \<open>mc_\<close> because \<open>id\<close> is a constant of HOL.
\<close>

datatype ModelProvider = OpenAI | Anthropic | OpenRouter

record ModelConfig =
  mc_id :: string
  mc_name :: string
  mc_provider :: ModelProvider
  mc_description :: string

definition AVAILABLE_MODELS :: "ModelConfig list" where
  "AVAILABLE_MODELS =
    [\<lparr>mc_id = ''openai/gpt-5.1'', mc_name = ''GPT-5.1'', mc_provider = OpenRouter,
       mc_description = ''Latest generation OpenAI model''\<rparr>,
     \<lparr>mc_id = ''anthropic/claude-sonnet-4.5'', mc_name = ''Claude Sonnet 4.5'',
       mc_provider = OpenRouter, mc_description = ''Next generation Claude model''\<rparr>,
     \<lparr>mc_id = ''google/gemini-3-pro-preview'', mc_name = ''Gemini 3 Pro (Preview)'',
       mc_provider = OpenRouter,
       mc_description = ''Google's latest Gemini preview model''\<rparr>,
     \<lparr>mc_id = ''gpt-4o'', mc_name = ''GPT-4o'', mc_provider = OpenAI,
       mc_description = ''Most capable OpenAI model with vision and advanced reasoning''\<rparr>,
     \<lparr>mc_id = ''gpt-4o-mini'', mc_name = ''GPT-4o Mini'', mc_provider = OpenAI,
       mc_description = ''Faster and more affordable version of GPT-4o''\<rparr>,
     \<lparr>mc_id = ''haiku-4-5'', mc_name = ''Claude Haiku 4.5'', mc_provider = Anthropic,
       mc_description = ''Fast and efficient Claude model for quick responses''\<rparr>,
     \<lparr>mc_id = ''anthropic/claude-3.5-sonnet'', mc_name = ''Claude 3.5 Sonnet'',
       mc_provider = OpenRouter,
       mc_description = ''Most capable Claude model via OpenRouter''\<rparr>,
     \<lparr>mc_id = ''google/gemini-pro-1.5'', mc_name = ''Gemini Pro 1.5'',
       mc_provider = OpenRouter, mc_description = ''Google's latest multimodal model''\<rparr>,
     \<lparr>mc_id = ''meta-llama/llama-3.1-70b-instruct'', mc_name = ''Llama 3.1 70B'',
       mc_provider = OpenRouter, mc_description = ''Meta's powerful open model''\<rparr>,
     \<lparr>mc_id = ''mistralai/mistral-large'', mc_name = ''Mistral Large'',
       mc_provider = OpenRouter, mc_description = ''Mistral's flagship model''\<rparr>]"

text \<open>\<open>AVAILABLE_MODELS.find((model) => model.id === id)\<close>: the first entry with that id,
  \<open>undefined\<close> (here \<open>None\<close>) when there is none.\<close>

definition getModelById :: "string \<Rightarrow> ModelConfig option" where
  "getModelById i = find (\<lambda>model. mc_id model = i) AVAILABLE_MODELS"

text \<open>The same lookup over any list of entries, for what the handler does with a
  registry that has other entries than the shipped ones.\<close>

definition find_model :: "ModelConfig list \<Rightarrow> string \<Rightarrow> ModelConfig option" where
  "find_model models i = find (\<lambda>model. mc_id model = i) models"

definition getDefaultModel :: "ModelConfig" where
  "getDefaultModel = hd AVAILABLE_MODELS"

section \<open>Model resolution (src/app/api/chat/route.ts, lines 120-146)\<close>

text \<open>
  The value of the variable \<open>model\<close>: the SDK constructor that was called and what it
  was called with. That is a model name, \<open>anthropic(name)\<close>, \<open>openrouter(modelId)\<close> or
  \<open>openai(name)\<close>, or, when the read of a name map has found a property that every
  object inherits, that inherited object, given here by the name of the property.
\<close>

datatype LanguageModel =
    anthropic string
  | openrouter string
  | openai string
  | anthropic_object string
  | openai_object string

fun concrete_model_name :: "LanguageModel \<Rightarrow> string option" where
  "concrete_model_name (anthropic n) = Some n"
| "concrete_model_name (openrouter n) = Some n"
| "concrete_model_name (openai n) = Some n"
| "concrete_model_name (anthropic_object k) = None"
| "concrete_model_name (openai_object k) = None"

text \<open>
  The two object literals of type \<open>Record<string, string>\<close>, by their own keys. A
  property read \<open>m[modelId]\<close> on an object literal gives the value of an own key;
  for a key that is not its own it gives the property of that name inherited from
  \<open>Object.prototype\<close> (a function, or for \<open>__proto__\<close> the prototype itself), and
  \<open>undefined\<close> when there is none. In \<open>m[modelId] || d\<close> an inherited property is
  truthy and is the result, a non-empty string is the result, and \<open>d\<close> is the result
  for \<open>undefined\<close> and for the empty string.
\<close>

definition anthropicModelMap :: "string \<rightharpoonup> string" where
  "anthropicModelMap = [''haiku-4-5'' \<mapsto> ''claude-3-5-haiku-20241022'']"

definition openaiModelMap :: "string \<rightharpoonup> string" where
  "openaiModelMap = [''gpt-4o'' \<mapsto> ''gpt-4o'', ''gpt-4o-mini'' \<mapsto> ''gpt-4o-mini'']"

definition Object_prototype :: "string list" where
  "Object_prototype =
     [''constructor'', ''__defineGetter__'', ''__defineSetter__'', ''hasOwnProperty'',
      ''__lookupGetter__'', ''__lookupSetter__'', ''isPrototypeOf'', ''propertyIsEnumerable'',
      ''toString'', ''valueOf'', ''__proto__'', ''toLocaleString'']"

datatype property = Own string | Inherited string | Undefined

definition get_property :: "(string \<rightharpoonup> string) \<Rightarrow> string \<Rightarrow> property" where
  "get_property m k =
     (case m k of
        Some v \<Rightarrow> Own v
      | None \<Rightarrow> if k \<in> set Object_prototype then Inherited k else Undefined)"

definition resolve_model :: "ModelProvider \<Rightarrow> string \<Rightarrow> LanguageModel" where
  "resolve_model p modelId =
    (if p = Anthropic then
       (case get_property anthropicModelMap modelId of
          Own n \<Rightarrow> anthropic (if n = [] then ''claude-3-5-haiku-20241022'' else n)
        | Inherited k \<Rightarrow> anthropic_object k
        | Undefined \<Rightarrow> anthropic ''claude-3-5-haiku-20241022'')
     else if p = OpenRouter then
       openrouter modelId
     else
       (case get_property openaiModelMap modelId of
          Own n \<Rightarrow> openai (if n = [] then ''gpt-4o'' else n)
        | Inherited k \<Rightarrow> openai_object k
        | Undefined \<Rightarrow> openai ''gpt-4o''))"

section \<open>The store (web/src/lib/db/schema.sql)\<close>

text \<open>
  The tables \<open>threads\<close> and \<open>messages\<close>. A row of \<open>messages\<close> is kept without its
  \<open>id\<close> and \<open>created_at\<close> columns: both are filled by column defaults and no handler
  modelled here reads them. The column \<open>role\<close> is constrained to three values; the JSONB
  column \<open>content\<close> holds what the chat handler writes there, a list of typed parts or
  a legacy flat string. Timestamps are points of a clock, as natural numbers.
\<close>

datatype role = User | Assistant | System

datatype part = TextPart string | OtherPart string

datatype content = PartList "part list" | FlatContent string

record thread_row =
  th_id :: string
  th_user_id :: string
  th_title :: string
  th_model_id :: string
  th_created_at :: nat
  th_updated_at :: nat

record message_row =
  msg_thread_id :: string
  msg_role :: role
  msg_content :: content
  msg_model_name :: "string option"
  msg_sequence_index :: nat

record db =
  db_threads :: "thread_row list"
  db_messages :: "message_row list"

text \<open>
  The row level security policies on \<open>threads\<close> all read \<open>auth.uid() = user_id\<close>: a
  query of user \<open>uid\<close> sees and updates only the rows that \<open>uid\<close> owns. The policies on
  \<open>messages\<close> ask for a thread of the caller with the message's \<open>thread_id\<close>; the chat
  handler touches \<open>messages\<close> only after it has selected that thread under the thread
  policy, so they are not repeated in the message queries below.
\<close>

definition rls_thread :: "string \<Rightarrow> thread_row \<Rightarrow> bool" where
  "rls_thread uid t = (th_user_id t = uid)"

text \<open>\<open>.single()\<close>: the row when the query returns exactly one, an error otherwise.\<close>

definition single :: "'a list \<Rightarrow> 'a option" where
  "single rows = (case rows of [r] \<Rightarrow> Some r | _ \<Rightarrow> None)"

definition select_thread :: "string \<Rightarrow> string \<Rightarrow> db \<Rightarrow> thread_row option" where
  "select_thread uid tid d =
     single (filter (\<lambda>t. th_id t = tid \<and> rls_thread uid t) (db_threads d))"

text \<open>\<open>.select("*", { count: "exact", head: true }).eq("thread_id", tid)\<close>\<close>

definition count_messages :: "string \<Rightarrow> db \<Rightarrow> nat" where
  "count_messages tid d = length (filter (\<lambda>m. msg_thread_id m = tid) (db_messages d))"

definition insert_message :: "message_row \<Rightarrow> db \<Rightarrow> db" where
  "insert_message r d = d\<lparr>db_messages := db_messages d @ [r]\<rparr>"

text \<open>
  \<open>.update(...).eq("id", tid)\<close> on \<open>threads\<close>: the change \<open>f\<close> is applied to the rows the
  caller may update, and the trigger \<open>update_threads_updated_at\<close> (BEFORE UPDATE, FOR EACH
  ROW) then sets \<open>updated_at\<close> to the store's \<open>NOW()\<close>, whatever the statement assigned.
\<close>

definition update_thread ::
  "string \<Rightarrow> string \<Rightarrow> (thread_row \<Rightarrow> thread_row) \<Rightarrow> nat \<Rightarrow> db \<Rightarrow> db" where
  "update_thread uid tid f now d =
     d\<lparr>db_threads :=
         map (\<lambda>t. if th_id t = tid \<and> rls_thread uid t then (f t)\<lparr>th_updated_at := now\<rparr> else t)
           (db_threads d)\<rparr>"

text \<open>
  \<open>.eq("thread_id", tid).eq("role", "user").order("sequence_index", { ascending: true })
  .limit(1).single()\<close>: the user row of the thread with the least sequence index (the
  earliest stored one among equals), no row when the thread has no user message.
\<close>

fun least_sequence :: "message_row list \<Rightarrow> message_row option" where
  "least_sequence [] = None"
| "least_sequence (m # ms) =
     (case least_sequence ms of
        None \<Rightarrow> Some m
      | Some m' \<Rightarrow> if msg_sequence_index m \<le> msg_sequence_index m' then Some m else Some m')"

definition select_first_user_message :: "string \<Rightarrow> db \<Rightarrow> content option" where
  "select_first_user_message tid d =
     map_option msg_content
       (least_sequence (filter (\<lambda>m. msg_thread_id m = tid \<and> msg_role m = User) (db_messages d)))"

section \<open>Requests, the environment of a request, and what a request produces\<close>

text \<open>
  \<open>UIMessage\<close>, as far as the handler reads it: \<open>role\<close>, the optional \<open>parts\<close> and the
  legacy \<open>content\<close> field that the handler reads through a cast.
\<close>

record UIMessage =
  ui_id :: string
  ui_role :: role
  ui_parts :: "part list option"
  ui_content :: "content option"

record chat_request =
  query_threadId :: "string option"
  body_messages :: "UIMessage list"
  body_system :: "string option"
  body_threadId :: "string option"

text \<open>
  The provider's lazy text sequence \<open>result.textStream\<close>: finitely many increments, then
  either the end of the sequence or an error raised by the iteration.
\<close>

datatype text_stream = StreamDone | StreamChunk string text_stream | StreamError string

text \<open>
  Everything a request gets from outside the handler: the authentication gate, the faults
  of the store at the places where the handler looks at them (\<open>threadError\<close>, a \<open>count\<close>
  that comes back \<open>null\<close>, \<open>insertError\<close>, a first-user lookup without data), the two
  clocks, and what the two calls into the package \<open>ai\<close> do. For \<open>streamText\<close> that is the
  text sequence \<open>result.textStream\<close> and, apart from it, whether the package runs the
  callback \<open>onFinish\<close> and with which text: \<open>sdk_onFinish\<close> is \<open>None\<close> when the callback
  is never run, which also happens with a text sequence that ends without raising, and
  \<open>Some text\<close> when it is run with \<open>text\<close>. For \<open>generateText\<close>, the title model, it is
  the answer to a prompt: a text (\<open>Inr\<close>) or an error thrown (\<open>Inl\<close>).
\<close>

record env =
  auth_user :: "string option"
  threadError :: bool
  user_count_null :: bool
  user_insertError :: bool
  date_now :: nat
  textStream :: text_stream
  sdk_onFinish :: "string option"
  asst_count_null :: bool
  asst_insertError :: bool
  first_user_error :: bool
  generateText :: "string \<Rightarrow> string + string"
  db_now :: nat

text \<open>
  The calls a request makes on its collaborators, in the order it makes them. An
  \<open>InsertMessage\<close> records the row sent and whether the store kept it.
\<close>

datatype effect =
    AuthGetUser
  | SelectThread string
  | CountMessages string
  | InsertMessage message_row bool
  | StreamText LanguageModel "(role \<times> string) list" "string option"
  | SelectFirstUserMessage string
  | GenerateText LanguageModel string
  | UpdateThread string "string option"

datatype wire_event =
    Start
  | StartStep
  | TextStart string
  | TextDelta string string
  | TextEnd string
  | FinishStep
  | Finish string
  | DoneMarker

datatype stream_end = Closed | Errored string

datatype response = JsonError nat string | EventStream "wire_event list" stream_end

text \<open>How a block of code ends, and what has become of the callback of a request.\<close>

datatype completion = Normal | Throw string

datatype callback = NotRun | Returned | Threw string

record outcome =
  out_response :: response
  out_db :: db
  out_trace :: "effect list"
  out_callback :: callback

section \<open>The chat handler (src/app/api/chat/route.ts)\<close>

subsection \<open>JavaScript values\<close>

text \<open>
  A string is the sequence of the bytes of its UTF-8 encoding. A string is truthy when it
  is there and not empty; \<open>count || 0\<close> is \<open>0\<close> for \<open>null\<close> (and for \<open>0\<close>).
\<close>

definition truthy :: "string option \<Rightarrow> bool" where
  "truthy v = (case v of None \<Rightarrow> False | Some s \<Rightarrow> s \<noteq> [])"

definition or_zero :: "nat option \<Rightarrow> nat" where
  "or_zero count = (case count of None \<Rightarrow> 0 | Some n \<Rightarrow> n)"

text \<open>An array is truthy, a string is truthy unless empty.\<close>

fun truthy_content :: "content \<Rightarrow> bool" where
  "truthy_content (PartList ps) = True"
| "truthy_content (FlatContent s) = (s \<noteq> [])"

text \<open>\<open>parts.filter((p) => p.type === "text").map((p) => p.text).join("")\<close>\<close>

fun text_of_part :: "part \<Rightarrow> string" where
  "text_of_part (TextPart t) = t"
| "text_of_part (OtherPart ty) = []"

definition join_text :: "part list \<Rightarrow> string" where
  "join_text ps = concat (map text_of_part ps)"

text \<open>\<open>"msg_" + Date.now()\<close> appends the decimal numeral of the clock value.\<close>

fun decimal :: "nat \<Rightarrow> string" where
  "decimal n =
     (if n < 10 then [char_of (48 + n)] else decimal (n div 10) @ [char_of (48 + n mod 10)])"

declare decimal.simps [simp del]

text \<open>
  \<open>titleResult.text.trim().replace(/^["']|["']$/g, '')\<close>. \<open>trim\<close> removes white space
  and line terminators at both ends: the code points U+0009 to U+000D, U+0020, U+00A0,
  U+1680, U+2000 to U+200A, U+2028, U+2029, U+202F, U+205F, U+3000 and U+FEFF, here by
  their encodings. The replacement removes one quote character at the start and one at
  the end, when they are there.
\<close>

definition white_space :: "string list" where
  "white_space =
     [[CHR 0x09], [CHR 0x0A], [CHR 0x0B], [CHR 0x0C], [CHR 0x0D], [CHR 0x20],
      [CHR 0xC2, CHR 0xA0], [CHR 0xE1, CHR 0x9A, CHR 0x80],
      [CHR 0xE2, CHR 0x80, CHR 0x80], [CHR 0xE2, CHR 0x80, CHR 0x81],
      [CHR 0xE2, CHR 0x80, CHR 0x82], [CHR 0xE2, CHR 0x80, CHR 0x83],
      [CHR 0xE2, CHR 0x80, CHR 0x84], [CHR 0xE2, CHR 0x80, CHR 0x85],
      [CHR 0xE2, CHR 0x80, CHR 0x86], [CHR 0xE2, CHR 0x80, CHR 0x87],
      [CHR 0xE2, CHR 0x80, CHR 0x88], [CHR 0xE2, CHR 0x80, CHR 0x89],
      [CHR 0xE2, CHR 0x80, CHR 0x8A], [CHR 0xE2, CHR 0x80, CHR 0xA8],
      [CHR 0xE2, CHR 0x80, CHR 0xA9], [CHR 0xE2, CHR 0x80, CHR 0xAF],
      [CHR 0xE2, CHR 0x81, CHR 0x9F], [CHR 0xE3, CHR 0x80, CHR 0x80],
      [CHR 0xEF, CHR 0xBB, CHR 0xBF]]"

text \<open>The length of the white space character a string starts with, \<open>0\<close> when it starts
  with none of \<open>ws\<close>.\<close>

definition space_length :: "string list \<Rightarrow> string \<Rightarrow> nat" where
  "space_length ws s =
     (case find (\<lambda>w. take (length w) s = w) ws of None \<Rightarrow> 0 | Some w \<Rightarrow> length w)"

function trim_with :: "string list \<Rightarrow> string \<Rightarrow> string" where
  "trim_with ws s =
     (if s = [] \<or> space_length ws s = 0 then s
      else trim_with ws (drop (space_length ws s) s))"
  by pat_completeness auto
termination
  by (relation "measure (\<lambda>(ws, s). length s)") auto

declare trim_with.simps [simp del]

definition trim :: "string \<Rightarrow> string" where
  "trim s = rev (trim_with (map rev white_space) (rev (trim_with white_space s)))"

definition is_quote :: "char \<Rightarrow> bool" where
  "is_quote c = (c = CHR 0x22 \<or> c = CHR 0x27)"

definition strip_quotes :: "string \<Rightarrow> string" where
  "strip_quotes s =
     (let s1 = (case s of [] \<Rightarrow> [] | c # cs \<Rightarrow> if is_quote c then cs else s)
      in case rev s1 of [] \<Rightarrow> [] | c # cs \<Rightarrow> if is_quote c then rev cs else s1)"

subsection \<open>Saving the last user message (lines 81-118)\<close>

definition lastMessage :: "UIMessage list \<Rightarrow> UIMessage option" where
  "lastMessage msgs = (if msgs = [] then None else Some (last msgs))"

text \<open>Lines 94-103: \<open>parts\<close> when there, else a truthy legacy \<open>content\<close>, else \<open>[]\<close>.\<close>

definition extract_content :: "UIMessage \<Rightarrow> content" where
  "extract_content m =
     (case ui_parts m of
        Some ps \<Rightarrow> PartList ps
      | None \<Rightarrow>
          (case ui_content m of
             Some c \<Rightarrow> if truthy_content c then c else PartList []
           | None \<Rightarrow> PartList []))"

definition user_row :: "env \<Rightarrow> string \<Rightarrow> UIMessage \<Rightarrow> db \<Rightarrow> message_row" where
  "user_row e currentThreadId m d =
     (let count = (if user_count_null e then None else Some (count_messages currentThreadId d));
          sequenceIndex = or_zero count
      in \<lparr>msg_thread_id = currentThreadId, msg_role = User, msg_content = extract_content m,
          msg_model_name = None, msg_sequence_index = sequenceIndex\<rparr>)"

definition save_user_message ::
  "env \<Rightarrow> string \<Rightarrow> UIMessage list \<Rightarrow> db \<Rightarrow> db \<times> effect list" where
  "save_user_message e currentThreadId msgs d =
     (case lastMessage msgs of
        None \<Rightarrow> (d, [])
      | Some m \<Rightarrow>
          if ui_role m = User then
            (let row = user_row e currentThreadId m d
             in (if user_insertError e then d else insert_message row d,
                 [CountMessages currentThreadId, InsertMessage row (\<not> user_insertError e)]))
          else (d, []))"

subsection \<open>The projection handed to the provider (lines 150-160)\<close>

definition project_message :: "UIMessage \<Rightarrow> role \<times> string" where
  "project_message msg =
     (ui_role msg, case ui_parts msg of Some ps \<Rightarrow> join_text ps | None \<Rightarrow> [])"

subsection \<open>The stream encoder \<open>customStream\<close> (lines 259-292)\<close>

text \<open>
  The \<open>for await\<close> loop and what follows it: one \<open>text-delta\<close> per increment; at the end
  of the sequence the four closing events and \<open>controller.close()\<close>; at an error
  \<open>controller.error(error)\<close> and nothing more.
\<close>

fun encode_chunks :: "string \<Rightarrow> text_stream \<Rightarrow> wire_event list \<times> stream_end" where
  "encode_chunks messageId StreamDone =
     ([TextEnd messageId, FinishStep, Finish ''stop'', DoneMarker], Closed)"
| "encode_chunks messageId (StreamError err) = ([], Errored err)"
| "encode_chunks messageId (StreamChunk chunk rest) =
     (let (evs, fin) = encode_chunks messageId rest
      in (TextDelta messageId chunk # evs, fin))"

definition customStream :: "nat \<Rightarrow> text_stream \<Rightarrow> wire_event list \<times> stream_end" where
  "customStream now stream =
     (let messageId = ''msg_'' @ decimal now;
          (evs, fin) = encode_chunks messageId stream
      in ([Start, StartStep, TextStart messageId] @ evs, fin))"

subsection \<open>\<open>streamText\<close> and its completion callback (lines 148-253)\<close>

text \<open>
  The call of \<open>streamText\<close> hands the callback \<open>onFinish\<close> to the package \<open>ai\<close>; the
  handler itself never calls it. When the package runs it, it runs with the text the
  package passes (\<open>sdk_onFinish\<close> of the environment).
\<close>

definition assistant_row :: "env \<Rightarrow> string \<Rightarrow> string \<Rightarrow> string \<Rightarrow> db \<Rightarrow> message_row" where
  "assistant_row e currentThreadId modelId text d =
     (let count = (if asst_count_null e then None else Some (count_messages currentThreadId d));
          sequenceIndex = or_zero count
      in \<lparr>msg_thread_id = currentThreadId, msg_role = Assistant,
          msg_content = PartList [TextPart text], msg_model_name = Some modelId,
          msg_sequence_index = sequenceIndex\<rparr>)"

definition userText_of :: "content \<Rightarrow> string" where
  "userText_of c = (case c of PartList ps \<Rightarrow> join_text ps | FlatContent s \<Rightarrow> [])"

definition titlePrompt :: "string \<Rightarrow> string \<Rightarrow> string" where
  "titlePrompt userText text =
     ''Based on this conversation, generate a brief, descriptive title (5-7 words max). Only respond with the title, nothing else.''
     @ [CHR 0x0A, CHR 0x0A] @ ''User: '' @ userText @ [CHR 0x0A] @ ''Assistant: '' @ text"

definition first_user_message :: "env \<Rightarrow> string \<Rightarrow> db \<Rightarrow> content option" where
  "first_user_message e currentThreadId d =
     (if first_user_error e then None else select_first_user_message currentThreadId d)"

record finished =
  fin_db :: db
  fin_trace :: "effect list"
  fin_completion :: completion

text \<open>
  The \<open>try\<close> block of lines 187-236, which ends normally or with the error that
  \<open>generateText\<close> throws; the calls of the store do not throw.
\<close>

definition title_block :: "env \<Rightarrow> string \<Rightarrow> string \<Rightarrow> string \<Rightarrow> db \<Rightarrow> finished" where
  "title_block e uid currentThreadId text d1 =
     (case first_user_message e currentThreadId d1 of
        None \<Rightarrow>
          \<lparr>fin_db = d1, fin_trace = [SelectFirstUserMessage currentThreadId],
            fin_completion = Normal\<rparr>
      | Some c \<Rightarrow>
          (let prompt = titlePrompt (userText_of c) text;
               tr = [SelectFirstUserMessage currentThreadId,
                     GenerateText (openai ''gpt-4o-mini'') prompt]
           in case generateText e prompt of
                Inl err \<Rightarrow> \<lparr>fin_db = d1, fin_trace = tr, fin_completion = Throw err\<rparr>
              | Inr raw \<Rightarrow>
                  (let generatedTitle = strip_quotes (trim raw)
                   in \<lparr>fin_db = update_thread uid currentThreadId
                                  (\<lambda>t. t\<lparr>th_title := generatedTitle\<rparr>) (db_now e) d1,
                        fin_trace = tr @ [UpdateThread currentThreadId (Some generatedTitle)],
                        fin_completion = Normal\<rparr>)))"

text \<open>
  The callback (lines 162-252). Its \<open>catch\<close> takes every error of the \<open>try\<close> block,
  updates the timestamp and ends normally.
\<close>

definition onFinish ::
  "env \<Rightarrow> string \<Rightarrow> string \<Rightarrow> string \<Rightarrow> string \<Rightarrow> db \<Rightarrow> finished" where
  "onFinish e uid currentThreadId modelId text d =
     (let row = assistant_row e currentThreadId modelId text d;
          sequenceIndex = msg_sequence_index row;
          d1 = (if asst_insertError e then d else insert_message row d);
          tr1 = [CountMessages currentThreadId, InsertMessage row (\<not> asst_insertError e)]
      in if sequenceIndex = 1 then
           (let t = title_block e uid currentThreadId text d1
            in case fin_completion t of
                 Normal \<Rightarrow> t\<lparr>fin_trace := tr1 @ fin_trace t\<rparr>
               | Throw err \<Rightarrow>
                   \<lparr>fin_db = update_thread uid currentThreadId (\<lambda>t. t) (db_now e) (fin_db t),
                     fin_trace = tr1 @ fin_trace t @ [UpdateThread currentThreadId None],
                     fin_completion = Normal\<rparr>)
         else
           \<lparr>fin_db = update_thread uid currentThreadId (\<lambda>t. t) (db_now e) d1,
             fin_trace = tr1 @ [UpdateThread currentThreadId None],
             fin_completion = Normal\<rparr>)"

subsection \<open>\<open>POST /api/chat\<close>\<close>

text \<open>
  The handler, check by check as in the source (\<open>!threadId\<close> holds for a missing and
  for an empty thread id). The response is returned as soon as the
  stream object exists and the rest runs while the stream is drained; the outcome below
  collects what the request has produced once the provider's sequence has come to its
  end and the package has run the callback, if it runs it: the response with the events
  put on the stream, the store, the calls made, and how the callback ended.
\<close>

definition error_outcome :: "nat \<Rightarrow> string \<Rightarrow> db \<Rightarrow> effect list \<Rightarrow> outcome" where
  "error_outcome status msg d tr =
     \<lparr>out_response = JsonError status msg, out_db = d, out_trace = tr,
       out_callback = NotRun\<rparr>"

definition callback_of :: "completion \<Rightarrow> callback" where
  "callback_of c = (case c of Normal \<Rightarrow> Returned | Throw err \<Rightarrow> Threw err)"

definition chat_threadId :: "chat_request \<Rightarrow> string option" where
  "chat_threadId req =
     (if truthy (query_threadId req) then query_threadId req else body_threadId req)"

definition run_chat ::
  "env \<Rightarrow> chat_request \<Rightarrow> string \<Rightarrow> string \<Rightarrow> string \<Rightarrow> ModelConfig \<Rightarrow> db \<Rightarrow> outcome" where
  "run_chat e req uid currentThreadId modelId modelConfig d =
     (let (d1, tr1) = save_user_message e currentThreadId (body_messages req) d;
          model = resolve_model (mc_provider modelConfig) modelId;
          call = StreamText model (map project_message (body_messages req)) (body_system req);
          (events, fin) = customStream (date_now e) (textStream e)
      in case sdk_onFinish e of
           None \<Rightarrow>
             \<lparr>out_response = EventStream events fin, out_db = d1,
               out_trace = [AuthGetUser, SelectThread currentThreadId] @ tr1 @ [call],
               out_callback = NotRun\<rparr>
         | Some text \<Rightarrow>
             (let f = onFinish e uid currentThreadId modelId text d1
              in \<lparr>out_response = EventStream events fin, out_db = fin_db f,
                   out_trace =
                     [AuthGetUser, SelectThread currentThreadId] @ tr1 @ [call] @ fin_trace f,
                   out_callback = callback_of (fin_completion f)\<rparr>))"

definition POST :: "env \<Rightarrow> chat_request \<Rightarrow> db \<Rightarrow> outcome" where
  "POST e req d =
     (case auth_user e of
        None \<Rightarrow> error_outcome 401 ''Unauthorized'' d [AuthGetUser]
      | Some uid \<Rightarrow>
          (case chat_threadId req of
             None \<Rightarrow>
               error_outcome 400 ''threadId is required. Create a thread first.'' d
                 [AuthGetUser]
           | Some currentThreadId \<Rightarrow>
               if currentThreadId = [] then
                 error_outcome 400 ''threadId is required. Create a thread first.'' d
                   [AuthGetUser]
               else
                 (case (if threadError e then None
                        else select_thread uid currentThreadId d) of
                    None \<Rightarrow>
                      error_outcome 404 ''Thread not found'' d
                        [AuthGetUser, SelectThread currentThreadId]
                  | Some thread \<Rightarrow>
                      (let modelId = th_model_id thread
                       in case getModelById modelId of
                            None \<Rightarrow>
                              error_outcome 400 (''Invalid model: '' @ modelId) d
                                [AuthGetUser, SelectThread currentThreadId]
                          | Some modelConfig \<Rightarrow>
                              run_chat e req uid currentThreadId modelId modelConfig d))))"

text \<open>
  The same handler over a registry given as a parameter; over the shipped registry it is
  \<open>POST\<close> itself.
\<close>

definition POST_with :: "ModelConfig list \<Rightarrow> env \<Rightarrow> chat_request \<Rightarrow> db \<Rightarrow> outcome" where
  "POST_with models e req d =
     (case auth_user e of
        None \<Rightarrow> error_outcome 401 ''Unauthorized'' d [AuthGetUser]
      | Some uid \<Rightarrow>
          (case chat_threadId req of
             None \<Rightarrow>
               error_outcome 400 ''threadId is required. Create a thread first.'' d
                 [AuthGetUser]
           | Some currentThreadId \<Rightarrow>
               if currentThreadId = [] then
                 error_outcome 400 ''threadId is required. Create a thread first.'' d
                   [AuthGetUser]
               else
                 (case (if threadError e then None
                        else select_thread uid currentThreadId d) of
                    None \<Rightarrow>
                      error_outcome 404 ''Thread not found'' d
                        [AuthGetUser, SelectThread currentThreadId]
                  | Some thread \<Rightarrow>
                      (let modelId = th_model_id thread
                       in case find_model models modelId of
                            None \<Rightarrow>
                              error_outcome 400 (''Invalid model: '' @ modelId) d
                                [AuthGetUser, SelectThread currentThreadId]
                          | Some modelConfig \<Rightarrow>
                              run_chat e req uid currentThreadId modelId modelConfig d))))"

section \<open>\<open>PATCH /api/threads/[id]\<close>\<close>

text \<open>
  The handler that updates a thread's title or model id. Its environment: the
  authentication gate, a fault of the store with its message, the message \<open>.single()\<close>
  reports when the update returned no row, and the store's clock.
\<close>

record patch_body =
  pb_title :: "string option"
  pb_model_id :: "string option"

record thread_env =
  te_auth_user :: "string option"
  te_store_error :: "string option"
  te_single_error :: string
  te_db_now :: nat

datatype patch_response = PatchError nat string | PatchThread thread_row

definition apply_updates :: "patch_body \<Rightarrow> thread_row \<Rightarrow> thread_row" where
  "apply_updates body t =
     t\<lparr>th_title := (case pb_title body of Some x \<Rightarrow> x | None \<Rightarrow> th_title t),
       th_model_id := (case pb_model_id body of Some x \<Rightarrow> x | None \<Rightarrow> th_model_id t)\<rparr>"

definition PATCH :: "thread_env \<Rightarrow> string \<Rightarrow> patch_body \<Rightarrow> db \<Rightarrow> patch_response \<times> db" where
  "PATCH e tid body d =
     (case te_auth_user e of
        None \<Rightarrow> (PatchError 401 ''Unauthorized'', d)
      | Some uid \<Rightarrow>
          if pb_title body = None \<and> pb_model_id body = None then
            (PatchError 400 ''No valid fields to update'', d)
          else
            (case te_store_error e of
               Some msg \<Rightarrow> (PatchError 500 msg, d)
             | None \<Rightarrow>
                 (let d' = update_thread uid tid (apply_updates body) (te_db_now e) d
                  in case select_thread uid tid d' of
                       None \<Rightarrow> (PatchError 500 (te_single_error e), d')
                     | Some thread \<Rightarrow> (PatchThread thread, d'))))"

section \<open>Observations on an outcome\<close>

text \<open>The calls made before the provider is invoked, and the kinds of call of interest.\<close>

fun is_StreamText :: "effect \<Rightarrow> bool" where
  "is_StreamText (StreamText m msgs sys) = True"
| "is_StreamText other = False"

fun provider_models :: "effect list \<Rightarrow> LanguageModel list" where
  "provider_models [] = []"
| "provider_models (StreamText m msgs sys # tr) = m # provider_models tr"
| "provider_models (other # tr) = provider_models tr"

fun is_GenerateText :: "effect \<Rightarrow> bool" where
  "is_GenerateText (GenerateText m prompt) = True"
| "is_GenerateText other = False"

fun is_InsertMessage :: "effect \<Rightarrow> bool" where
  "is_InsertMessage (InsertMessage row ok) = True"
| "is_InsertMessage other = False"

definition before_provider :: "effect list \<Rightarrow> effect list" where
  "before_provider tr = takeWhile (\<lambda>x. \<not> is_StreamText x) tr"

definition new_messages :: "db \<Rightarrow> db \<Rightarrow> message_row list" where
  "new_messages d d' = drop (length (db_messages d)) (db_messages d')"



fun chunks :: "text_stream \<Rightarrow> string list" where
  "chunks StreamDone = []"
| "chunks (StreamError err) = []"
| "chunks (StreamChunk chunk rest) = chunk # chunks rest"

fun completes :: "text_stream \<Rightarrow> bool" where
  "completes StreamDone = True"
| "completes (StreamError err) = False"
| "completes (StreamChunk chunk rest) = completes rest"

text \<open>
  Inserts by the role of the row sent, the rows of a role that a request has added to
  the store, whether the last inbound message is a user message, the error a text
  sequence ends with, the payloads of the \<open>text-delta\<close> events, the four closing events,
  and the events of a response.
\<close>

fun is_user_insert :: "effect \<Rightarrow> bool" where
  "is_user_insert (InsertMessage row ok) = (msg_role row = User)"
| "is_user_insert other = False"

fun is_assistant_insert :: "effect \<Rightarrow> bool" where
  "is_assistant_insert (InsertMessage row ok) = (msg_role row = Assistant)"
| "is_assistant_insert other = False"

definition stored_rows :: "role \<Rightarrow> db \<Rightarrow> db \<Rightarrow> message_row list" where
  "stored_rows r d d' = filter (\<lambda>m. msg_role m = r) (new_messages d d')"

definition last_is_user :: "UIMessage list \<Rightarrow> bool" where
  "last_is_user msgs = (case lastMessage msgs of None \<Rightarrow> False | Some m \<Rightarrow> ui_role m = User)"

fun stream_error :: "text_stream \<Rightarrow> string option" where
  "stream_error StreamDone = None"
| "stream_error (StreamError err) = Some err"
| "stream_error (StreamChunk chunk rest) = stream_error rest"


fun is_closing :: "wire_event \<Rightarrow> bool" where
  "is_closing (TextEnd i) = True"
| "is_closing FinishStep = True"
| "is_closing (Finish reason) = True"
| "is_closing DoneMarker = True"
| "is_closing other = False"

fun response_events :: "response \<Rightarrow> wire_event list" where
  "response_events (EventStream events fin) = events"
| "response_events (JsonError status msg) = []"

text \<open>The store as the user-message step leaves it, which is the store the completion
  callback reads its count from.\<close>

definition user_saved :: "env \<Rightarrow> chat_request \<Rightarrow> string \<Rightarrow> db \<Rightarrow> db" where
  "user_saved e req tid d = fst (save_user_message e tid (body_messages req) d)"

text \<open>
  A request passes the checks made before anything is written: the caller is
  authenticated as \<open>uid\<close>, a non-empty thread id \<open>tid\<close> is supplied, the thread is
  found for this caller, and its stored model id has the registry entry \<open>cfg\<close>.
\<close>

definition passes_checks ::
  "env \<Rightarrow> chat_request \<Rightarrow> db \<Rightarrow> string \<Rightarrow> string \<Rightarrow> thread_row \<Rightarrow> ModelConfig \<Rightarrow> bool" where
  "passes_checks e req d uid tid thread cfg =
     (auth_user e = Some uid \<and> chat_threadId req = Some tid \<and> tid \<noteq> []
      \<and> threadError e = False \<and> select_thread uid tid d = Some thread
      \<and> getModelById (th_model_id thread) = Some cfg)"

text \<open>The same for the handler over the registry \<open>models\<close>.\<close>

definition passes_checks_with ::
  "ModelConfig list \<Rightarrow> env \<Rightarrow> chat_request \<Rightarrow> db \<Rightarrow> string \<Rightarrow> string \<Rightarrow> thread_row
     \<Rightarrow> ModelConfig \<Rightarrow> bool" where
  "passes_checks_with models e req d uid tid thread cfg =
     (auth_user e = Some uid \<and> chat_threadId req = Some tid \<and> tid \<noteq> []
      \<and> threadError e = False \<and> select_thread uid tid d = Some thread
      \<and> find_model models (th_model_id thread) = Some cfg)"

section \<open>Sample conversations\<close>

text \<open>
  One thread of user \<open>u1\<close> on the model \<open>gpt-4o\<close> with no message yet, a request that
  sends the single user message \<open>Hi\<close>, and an environment in which nothing fails: the
  provider answers \<open>Hel\<close>, \<open>lo\<close>, the callback is run with \<open>Hello\<close>, and the title
  model answers with a quoted title.
\<close>

definition ex_thread :: thread_row where
  "ex_thread = \<lparr>th_id = ''t1'', th_user_id = ''u1'', th_title = ''New Chat'',
     th_model_id = ''gpt-4o'', th_created_at = 100, th_updated_at = 100\<rparr>"

definition ex_db :: db where
  "ex_db = \<lparr>db_threads = [ex_thread], db_messages = []\<rparr>"

definition ex_hi :: UIMessage where
  "ex_hi = \<lparr>ui_id = ''user-1'', ui_role = User, ui_parts = Some [TextPart ''Hi''],
     ui_content = None\<rparr>"

definition ex_req :: chat_request where
  "ex_req = \<lparr>query_threadId = Some ''t1'', body_messages = [ex_hi], body_system = None,
     body_threadId = None\<rparr>"

definition ex_raw_title :: string where
  "ex_raw_title = CHR 0x22 # ''Greeting'' @ [CHR 0x22]"

definition ex_env :: env where
  "ex_env = \<lparr>auth_user = Some ''u1'', threadError = False, user_count_null = False,
     user_insertError = False, date_now = 1700000000000,
     textStream = StreamChunk ''Hel'' (StreamChunk ''lo'' StreamDone),
     sdk_onFinish = Some ''Hello'',
     asst_count_null = False, asst_insertError = False, first_user_error = False,
     generateText = (\<lambda>prompt. Inr ex_raw_title),
     db_now = 200\<rparr>"

definition ex_gpt4o :: ModelConfig where
  "ex_gpt4o = \<lparr>mc_id = ''gpt-4o'', mc_name = ''GPT-4o'', mc_provider = OpenAI,
     mc_description = ''Most capable OpenAI model with vision and advanced reasoning''\<rparr>"

text \<open>The two turns this request stores, and the prompt it sends to the title model.\<close>

definition ex_user_turn :: message_row where
  "ex_user_turn = \<lparr>msg_thread_id = ''t1'', msg_role = User,
     msg_content = PartList [TextPart ''Hi''], msg_model_name = None,
     msg_sequence_index = 0\<rparr>"

definition ex_assistant_turn :: message_row where
  "ex_assistant_turn = \<lparr>msg_thread_id = ''t1'', msg_role = Assistant,
     msg_content = PartList [TextPart ''Hello''], msg_model_name = Some ''gpt-4o'',
     msg_sequence_index = 1\<rparr>"

definition ex_prompt :: string where
  "ex_prompt = titlePrompt ''Hi'' ''Hello''"

text \<open>Variations: the insert of the user message fails; the provider raises after two
  increments and the callback is not run; the title model throws; the text sequence ends
  at once without raising and the callback is not run.\<close>

definition ex_env_insert_fails :: env where
  "ex_env_insert_fails = ex_env\<lparr>user_insertError := True\<rparr>"

definition ex_env_provider_fails :: env where
  "ex_env_provider_fails =
     ex_env\<lparr>textStream := StreamChunk ''Hel'' (StreamChunk ''lo'' (StreamError ''overloaded'')),
            sdk_onFinish := None\<rparr>"

definition ex_env_title_fails :: env where
  "ex_env_title_fails = ex_env\<lparr>generateText := (\<lambda>prompt. Inl ''rate limited'')\<rparr>"

definition ex_env_no_callback :: env where
  "ex_env_no_callback = ex_env\<lparr>textStream := StreamDone, sdk_onFinish := None\<rparr>"

text \<open>A thread whose stored model id is not in the registry.\<close>

definition ex_thread_unknown :: thread_row where
  "ex_thread_unknown = ex_thread\<lparr>th_model_id := ''gpt-3''\<rparr>"

definition ex_db_unknown :: db where
  "ex_db_unknown = \<lparr>db_threads = [ex_thread_unknown], db_messages = []\<rparr>"

text \<open>A thread on the registry's Anthropic entry.\<close>

definition ex_thread_haiku :: thread_row where
  "ex_thread_haiku = ex_thread\<lparr>th_model_id := ''haiku-4-5''\<rparr>"

definition ex_db_haiku :: db where
  "ex_db_haiku = \<lparr>db_threads = [ex_thread_haiku], db_messages = []\<rparr>"

definition ex_haiku :: ModelConfig where
  "ex_haiku = \<lparr>mc_id = ''haiku-4-5'', mc_name = ''Claude Haiku 4.5'', mc_provider = Anthropic,
     mc_description = ''Fast and efficient Claude model for quick responses''\<rparr>"

text \<open>
  A request whose message list ends with an assistant message, sent twice to the empty
  thread: \<open>ex_db_replied\<close> is the store after the first of the two requests.
\<close>

definition ex_hello :: UIMessage where
  "ex_hello = \<lparr>ui_id = ''assistant-1'', ui_role = Assistant,
     ui_parts = Some [TextPart ''Hello''], ui_content = None\<rparr>"

definition ex_req_continue :: chat_request where
  "ex_req_continue = ex_req\<lparr>body_messages := [ex_hi, ex_hello]\<rparr>"

definition ex_db_replied :: db where
  "ex_db_replied = out_db (POST ex_env ex_req_continue ex_db)"

text \<open>
  The store after the sample exchange, with its two turns, and a \<open>PATCH\<close> by the owner
  of the thread that names another model.
\<close>

definition ex_db_started :: db where
  "ex_db_started = out_db (POST ex_env ex_req ex_db)"

definition ex_patch_env :: thread_env where
  "ex_patch_env = \<lparr>te_auth_user = Some ''u1'', te_store_error = None,
     te_single_error = ''no rows'', te_db_now = 300\<rparr>"

definition ex_patch_body :: patch_body where
  "ex_patch_body = \<lparr>pb_title = None, pb_model_id = Some ''haiku-4-5''\<rparr>"







section \<open>Basic facts\<close>

subsection \<open>The store\<close>

lemma db_messages_update_thread [simp]:
  "db_messages (update_thread uid tid f now d) = db_messages d"
  by (simp add: update_thread_def)

lemma db_threads_insert_message [simp]:
  "db_threads (insert_message r d) = db_threads d"
  by (simp add: insert_message_def)

lemma db_messages_insert_message [simp]:
  "db_messages (insert_message r d) = db_messages d @ [r]"
  by (simp add: insert_message_def)

lemma single_Some: "single rows = Some r \<Longrightarrow> rows = [r]"
  by (simp add: single_def split: list.splits)

lemma filter_map_same:
  "(\<And>x. P (g x) = P x) \<Longrightarrow> filter P (map g xs) = map g (filter P xs)"
  by (induction xs) simp_all

text \<open>An update that leaves \<open>id\<close> and \<open>user_id\<close> alone changes the selected thread by
  the update and the trigger, and nothing else about the selection.\<close>

lemma select_thread_update_thread:
  assumes "select_thread uid tid d = Some thread"
    and "\<And>t. th_id (f t) = th_id t" and "\<And>t. th_user_id (f t) = th_user_id t"
  shows "select_thread uid tid (update_thread uid tid f now d) =
     Some ((f thread)\<lparr>th_updated_at := now\<rparr>)"
proof -
  let ?P = "\<lambda>t. th_id t = tid \<and> rls_thread uid t"
  let ?g = "\<lambda>t. if ?P t then (f t)\<lparr>th_updated_at := now\<rparr> else t"
  have rows: "filter ?P (db_threads d) = [thread]"
    using assms(1) by (simp add: select_thread_def single_Some)
  then have "thread \<in> set (filter ?P (db_threads d))" by simp
  then have pt: "?P thread" by simp
  have "?P (?g x) = ?P x" for x
    by (simp add: rls_thread_def assms(2,3))
  then have "filter ?P (map ?g (db_threads d)) = map ?g (filter ?P (db_threads d))"
    by (rule filter_map_same)
  with rows pt show ?thesis
    by (simp add: select_thread_def update_thread_def single_def)
qed

lemma select_thread_insert_message [simp]:
  "select_thread uid tid (insert_message r d) = select_thread uid tid d"
  by (simp add: select_thread_def)

lemma model_ids_update_thread:
  "(\<And>t. th_model_id (f t) = th_model_id t) \<Longrightarrow>
   map th_model_id (db_threads (update_thread uid tid f now d)) = map th_model_id (db_threads d)"
  by (simp add: update_thread_def)

subsection \<open>The registry\<close>

lemma registry_entry:
  assumes "getModelById i = Some cfg"
  shows "mc_id cfg = i \<and> cfg \<in> set AVAILABLE_MODELS"
  using assms by (auto simp: getModelById_def find_Some_iff)

text \<open>For every entry of the registry that is not an Anthropic entry, the name the
  provider is called with is the registry id itself.\<close>

lemma registry_verbatim:
  assumes "getModelById i = Some cfg" and "mc_provider cfg \<noteq> Anthropic"
  shows "concrete_model_name (resolve_model (mc_provider cfg) i) = Some i"
proof -
  from registry_entry[OF assms(1)] have m: "mc_id cfg = i" and s: "cfg \<in> set AVAILABLE_MODELS"
    by simp_all
  from s assms(2) have "mc_provider cfg = OpenRouter
      \<or> (mc_provider cfg = OpenAI \<and> (mc_id cfg = ''gpt-4o'' \<or> mc_id cfg = ''gpt-4o-mini''))"
    by (auto simp: AVAILABLE_MODELS_def)
  with m show ?thesis
    by (auto simp: resolve_model_def get_property_def openaiModelMap_def)
qed

text \<open>The one Anthropic entry of the registry is \<open>haiku-4-5\<close>.\<close>

lemma registry_anthropic:
  assumes "getModelById i = Some cfg" and "mc_provider cfg = Anthropic"
  shows "i = ''haiku-4-5''"
proof -
  from registry_entry[OF assms(1)] have m: "mc_id cfg = i" and s: "cfg \<in> set AVAILABLE_MODELS"
    by simp_all
  from s assms(2) have "mc_id cfg = ''haiku-4-5''"
    by (auto simp: AVAILABLE_MODELS_def)
  with m show ?thesis by simp
qed

lemma getModelById_find_model: "getModelById i = find_model AVAILABLE_MODELS i"
  by (simp add: getModelById_def find_model_def)

subsection \<open>The text sequence and its encoding\<close>

lemma encode_chunks_completes:
  "completes s \<Longrightarrow>
   encode_chunks mid s =
     (map (TextDelta mid) (chunks s) @ [TextEnd mid, FinishStep, Finish ''stop'', DoneMarker],
      Closed)"
  by (induction s) auto

lemma customStream_completes:
  "completes s \<Longrightarrow>
   customStream now s =
     ([Start, StartStep, TextStart (''msg_'' @ decimal now)]
        @ map (TextDelta (''msg_'' @ decimal now)) (chunks s)
        @ [TextEnd (''msg_'' @ decimal now), FinishStep, Finish ''stop'', DoneMarker],
      Closed)"
  by (simp add: customStream_def Let_def encode_chunks_completes)

lemma customStream_error:
  "stream_error s = Some err \<Longrightarrow>
   customStream now s =
     ([Start, StartStep, TextStart (''msg_'' @ decimal now)]
        @ map (TextDelta (''msg_'' @ decimal now)) (chunks s), Errored err)"
proof -
  have "stream_error s = Some err \<Longrightarrow>
      encode_chunks mid s = (map (TextDelta mid) (chunks s), Errored err)" for mid
    by (induction s) simp_all
  then show "stream_error s = Some err \<Longrightarrow> ?thesis"
    by (simp add: customStream_def Let_def)
qed


lemma no_closing_in_deltas: "filter is_closing (map (TextDelta mid) cs) = []"
  by (induction cs) simp_all

lemma completes_iff_no_error: "completes s = (stream_error s = None)"
  by (induction s) auto

lemma provider_models_append [simp]:
  "provider_models (tr @ tr') = provider_models tr @ provider_models tr'"
  by (induction tr rule: provider_models.induct) simp_all

lemma provider_models_filter:
  "filter is_StreamText tr = [] \<Longrightarrow> provider_models tr = []"
  by (induction tr rule: provider_models.induct) simp_all

subsection \<open>The steps of the handler\<close>

lemma role_user_row [simp]: "msg_role (user_row e tid m d) = User"
  by (simp add: user_row_def Let_def)

lemma role_assistant_row [simp]: "msg_role (assistant_row e tid mid text d) = Assistant"
  by (simp add: assistant_row_def Let_def)

lemma sequence_index_assistant_row:
  "msg_sequence_index (assistant_row e tid mid text d) =
     (if asst_count_null e then 0 else count_messages tid d)"
  by (simp add: assistant_row_def or_zero_def Let_def)

lemma save_user_message_messages:
  "db_messages (fst (save_user_message e tid msgs d)) =
     db_messages d @ (if last_is_user msgs \<and> \<not> user_insertError e
                      then [user_row e tid (last msgs) d] else [])"
  by (simp add: save_user_message_def last_is_user_def lastMessage_def Let_def)

lemma save_user_message_threads [simp]:
  "db_threads (fst (save_user_message e tid msgs d)) = db_threads d"
  by (simp add: save_user_message_def lastMessage_def Let_def)

lemma save_user_message_trace:
  "snd (save_user_message e tid msgs d) =
     (if last_is_user msgs
      then [CountMessages tid, InsertMessage (user_row e tid (last msgs) d) (\<not> user_insertError e)]
      else [])"
  by (simp add: save_user_message_def last_is_user_def lastMessage_def Let_def)

lemma user_saved_messages:
  "db_messages (user_saved e req tid d) =
     db_messages d @ (if last_is_user (body_messages req) \<and> \<not> user_insertError e
                      then [user_row e tid (last (body_messages req)) d] else [])"
  by (simp add: user_saved_def save_user_message_messages)

lemma select_thread_user_saved [simp]:
  "select_thread uid tid (user_saved e req tid' d) = select_thread uid tid d"
  by (simp add: select_thread_def user_saved_def)

lemma first_user_message_insert_assistant [simp]:
  "first_user_message e tid (insert_message (assistant_row e' tid' mid text d') d) =
     first_user_message e tid d"
  by (simp add: first_user_message_def select_first_user_message_def)

text \<open>The \<open>try\<close> block: what it leaves in the store and in the trace, and how it ends.\<close>

lemma title_block_messages [simp]:
  "db_messages (fin_db (title_block e uid tid text d)) = db_messages d"
  by (simp add: title_block_def Let_def split: option.splits sum.splits)

lemma title_block_filters:
  "filter is_InsertMessage (fin_trace (title_block e uid tid text d)) = []"
  "filter is_StreamText (fin_trace (title_block e uid tid text d)) = []"
  "filter is_user_insert (fin_trace (title_block e uid tid text d)) = []"
  "filter is_assistant_insert (fin_trace (title_block e uid tid text d)) = []"
  by (simp_all add: title_block_def Let_def split: option.splits sum.splits)

lemma title_block_title_calls:
  "filter is_GenerateText (fin_trace (title_block e uid tid text d)) =
     (case first_user_message e tid d of
        None \<Rightarrow> []
      | Some c \<Rightarrow> [GenerateText (openai ''gpt-4o-mini'') (titlePrompt (userText_of c) text)])"
  by (simp add: title_block_def Let_def split: option.splits sum.splits)

lemma title_block_model_ids:
  "map th_model_id (db_threads (fin_db (title_block e uid tid text d))) =
     map th_model_id (db_threads d)"
  by (simp add: title_block_def Let_def model_ids_update_thread split: option.splits sum.splits)

lemma title_block_throws:
  assumes "first_user_message e tid d = Some c"
    and "generateText e (titlePrompt (userText_of c) text) = Inl err"
  shows "title_block e uid tid text d =
     \<lparr>fin_db = d,
       fin_trace = [SelectFirstUserMessage tid,
                    GenerateText (openai ''gpt-4o-mini'') (titlePrompt (userText_of c) text)],
       fin_completion = Throw err\<rparr>"
  using assms by (simp add: title_block_def Let_def)

text \<open>The callback.\<close>

lemma onFinish_messages:
  "db_messages (fin_db (onFinish e uid tid mid text d)) =
     db_messages d @ (if asst_insertError e then [] else [assistant_row e tid mid text d])"
  by (simp add: onFinish_def Let_def split: completion.splits)

lemma onFinish_filters:
  "filter is_InsertMessage (fin_trace (onFinish e uid tid mid text d)) =
     [InsertMessage (assistant_row e tid mid text d) (\<not> asst_insertError e)]"
  "filter is_StreamText (fin_trace (onFinish e uid tid mid text d)) = []"
  "filter is_user_insert (fin_trace (onFinish e uid tid mid text d)) = []"
  "filter is_assistant_insert (fin_trace (onFinish e uid tid mid text d)) =
     [InsertMessage (assistant_row e tid mid text d) (\<not> asst_insertError e)]"
  by (simp_all add: onFinish_def Let_def title_block_filters split: completion.splits)

lemma onFinish_title_calls:
  "filter is_GenerateText (fin_trace (onFinish e uid tid mid text d)) =
     (if msg_sequence_index (assistant_row e tid mid text d) = 1 then
        (case first_user_message e tid d of
           None \<Rightarrow> []
         | Some c \<Rightarrow> [GenerateText (openai ''gpt-4o-mini'') (titlePrompt (userText_of c) text)])
      else [])"
  by (simp add: onFinish_def Let_def title_block_title_calls split: completion.splits)

lemma onFinish_model_ids:
  "map th_model_id (db_threads (fin_db (onFinish e uid tid mid text d))) =
     map th_model_id (db_threads d)"
  by (simp add: onFinish_def Let_def model_ids_update_thread title_block_model_ids
      split: completion.splits)

text \<open>When the title model throws in the first reply to a user turn, the callback makes
  the timestamp update its last call, leaves nothing else in the store, and ends
  normally.\<close>

lemma onFinish_title_throws:
  assumes "msg_sequence_index (assistant_row e tid mid text d) = 1"
    and "first_user_message e tid d = Some c"
    and "generateText e (titlePrompt (userText_of c) text) = Inl err"
  shows "onFinish e uid tid mid text d =
     \<lparr>fin_db = update_thread uid tid (\<lambda>t. t) (db_now e)
                 (if asst_insertError e then d
                  else insert_message (assistant_row e tid mid text d) d),
       fin_trace =
         [CountMessages tid,
          InsertMessage (assistant_row e tid mid text d) (\<not> asst_insertError e),
          SelectFirstUserMessage tid,
          GenerateText (openai ''gpt-4o-mini'') (titlePrompt (userText_of c) text),
          UpdateThread tid None],
       fin_completion = Normal\<rparr>"
proof -
  let ?d1 = "if asst_insertError e then d else insert_message (assistant_row e tid mid text d) d"
  have f: "first_user_message e tid ?d1 = Some c"
    using assms(2) by simp
  show ?thesis
    using assms(1) by (simp add: onFinish_def Let_def title_block_throws[OF f assms(3)])
qed

subsection \<open>A request that passes the checks\<close>

lemma POST_passes_checks:
  assumes "passes_checks e req d uid tid thread cfg"
  shows "POST e req d = run_chat e req uid tid (th_model_id thread) cfg d"
  using assms by (simp add: POST_def passes_checks_def)

lemma out_response_run_chat:
  "out_response (run_chat e req uid tid modelId cfg d) =
     EventStream (fst (customStream (date_now e) (textStream e)))
       (snd (customStream (date_now e) (textStream e)))"
  by (simp add: run_chat_def Let_def split_beta split: option.splits)

lemma out_trace_run_chat:
  "out_trace (run_chat e req uid tid mid cfg d) =
     [AuthGetUser, SelectThread tid] @ snd (save_user_message e tid (body_messages req) d)
     @ [StreamText (resolve_model (mc_provider cfg) mid)
          (map project_message (body_messages req)) (body_system req)]
     @ (case sdk_onFinish e of
          None \<Rightarrow> []
        | Some text \<Rightarrow> fin_trace (onFinish e uid tid mid text (user_saved e req tid d)))"
  by (simp add: run_chat_def Let_def split_beta user_saved_def split: option.splits)

lemma out_db_run_chat:
  "out_db (run_chat e req uid tid mid cfg d) =
     (case sdk_onFinish e of
          None \<Rightarrow> user_saved e req tid d
        | Some text \<Rightarrow> fin_db (onFinish e uid tid mid text (user_saved e req tid d)))"
  by (simp add: run_chat_def Let_def split_beta user_saved_def split: option.splits)

lemma out_callback_run_chat:
  "out_callback (run_chat e req uid tid mid cfg d) =
     (case sdk_onFinish e of
          None \<Rightarrow> NotRun
        | Some text \<Rightarrow>
            callback_of (fin_completion (onFinish e uid tid mid text (user_saved e req tid d))))"
  by (simp add: run_chat_def Let_def split_beta user_saved_def split: option.splits)

lemma before_provider_run_chat:
  "before_provider (out_trace (run_chat e req uid tid mid cfg d)) =
     [AuthGetUser, SelectThread tid] @ snd (save_user_message e tid (body_messages req) d)"
  by (simp add: out_trace_run_chat before_provider_def save_user_message_trace)

lemma provider_calls_run_chat:
  "filter is_StreamText (out_trace (run_chat e req uid tid mid cfg d)) =
     [StreamText (resolve_model (mc_provider cfg) mid)
        (map project_message (body_messages req)) (body_system req)]"
  by (simp add: out_trace_run_chat save_user_message_trace onFinish_filters
      split: option.splits)

lemma provider_models_run_chat:
  "provider_models (out_trace (run_chat e req uid tid mid cfg d)) =
     [resolve_model (mc_provider cfg) mid]"
  by (simp add: out_trace_run_chat save_user_message_trace onFinish_filters
      provider_models_filter split: option.splits)

lemma user_inserts_run_chat:
  "filter is_user_insert (out_trace (run_chat e req uid tid mid cfg d)) =
     (if last_is_user (body_messages req)
      then [InsertMessage (user_row e tid (last (body_messages req)) d) (\<not> user_insertError e)]
      else [])"
  by (simp add: out_trace_run_chat save_user_message_trace onFinish_filters
      split: option.splits)

lemma assistant_inserts_run_chat:
  "filter is_assistant_insert (out_trace (run_chat e req uid tid mid cfg d)) =
     (case sdk_onFinish e of
        None \<Rightarrow> []
      | Some text \<Rightarrow>
          [InsertMessage (assistant_row e tid mid text (user_saved e req tid d))
             (\<not> asst_insertError e)])"
  by (simp add: out_trace_run_chat save_user_message_trace onFinish_filters
      split: option.splits)

lemma new_messages_run_chat:
  "new_messages d (out_db (run_chat e req uid tid mid cfg d)) =
     (if last_is_user (body_messages req) \<and> \<not> user_insertError e
      then [user_row e tid (last (body_messages req)) d] else [])
     @ (case sdk_onFinish e of
          None \<Rightarrow> []
        | Some text \<Rightarrow>
            if asst_insertError e then []
            else [assistant_row e tid mid text (user_saved e req tid d)])"
  by (simp add: new_messages_def out_db_run_chat onFinish_messages user_saved_messages
      split: option.splits)

lemma stored_user_rows_run_chat:
  "stored_rows User d (out_db (run_chat e req uid tid mid cfg d)) =
     (if last_is_user (body_messages req) \<and> \<not> user_insertError e
      then [user_row e tid (last (body_messages req)) d] else [])"
  by (simp add: stored_rows_def new_messages_run_chat split: option.splits)

lemma stored_assistant_rows_run_chat:
  "stored_rows Assistant d (out_db (run_chat e req uid tid mid cfg d)) =
     (case sdk_onFinish e of
          None \<Rightarrow> []
        | Some text \<Rightarrow>
            if asst_insertError e then []
            else [assistant_row e tid mid text (user_saved e req tid d)])"
  by (simp add: stored_rows_def new_messages_run_chat split: option.splits)

lemma title_calls_run_chat:
  "filter is_GenerateText (out_trace (run_chat e req uid tid mid cfg d)) =
     (case sdk_onFinish e of
        None \<Rightarrow> []
      | Some text \<Rightarrow>
          if msg_sequence_index (assistant_row e tid mid text (user_saved e req tid d)) = 1
          then
            (case first_user_message e tid (user_saved e req tid d) of
               None \<Rightarrow> []
             | Some c \<Rightarrow>
                 [GenerateText (openai ''gpt-4o-mini'') (titlePrompt (userText_of c) text)])
          else [])"
  by (simp add: out_trace_run_chat save_user_message_trace onFinish_title_calls
      split: option.splits)


lemma POST_with_registry: "POST_with AVAILABLE_MODELS e req d = POST e req d"
  unfolding POST_with_def POST_def getModelById_find_model by (rule refl)

lemma passes_checks_with_registry:
  "passes_checks_with AVAILABLE_MODELS e req d uid tid thread cfg =
     passes_checks e req d uid tid thread cfg"
  by (simp add: passes_checks_with_def passes_checks_def getModelById_find_model)

text \<open>Neither branch of the chat handler assigns \<open>model_id\<close>; a \<open>PATCH\<close> leaves it alone
  when its body has no \<open>model_id\<close>.\<close>

lemma POST_keeps_model_ids:
  "map th_model_id (db_threads (out_db (POST e req d))) = map th_model_id (db_threads d)"
  by (simp add: POST_def error_outcome_def out_db_run_chat onFinish_model_ids user_saved_def
      Let_def split: option.splits)

lemma PATCH_without_model_id_keeps_model_ids:
  "pb_model_id body = None \<Longrightarrow>
   map th_model_id (db_threads (snd (PATCH e tid body d))) = map th_model_id (db_threads d)"
  by (simp add: PATCH_def Let_def apply_updates_def model_ids_update_thread split: option.splits)

subsection \<open>The sample conversations, evaluated\<close>

lemma getModelById_gpt4o: "getModelById ''gpt-4o'' = Some ex_gpt4o"
  by (simp add: getModelById_def AVAILABLE_MODELS_def ex_gpt4o_def)

lemma getModelById_haiku: "getModelById ''haiku-4-5'' = Some ex_haiku"
  by (simp add: getModelById_def AVAILABLE_MODELS_def ex_haiku_def)

lemma getModelById_gpt3: "getModelById ''gpt-3'' = None"
  by (simp add: getModelById_def AVAILABLE_MODELS_def)

lemma decimal_ex: "decimal 1700000000000 = ''1700000000000''"
  by (simp add: decimal.simps char_of_def bit_0 bit_Suc_0_iff)

lemma sample_passes_checks:
  assumes "auth_user e = Some ''u1''" and "threadError e = False"
    and "chat_threadId req = Some ''t1''" and "db_threads d = [thread]"
    and "th_id thread = ''t1''" and "th_user_id thread = ''u1''"
    and "getModelById (th_model_id thread) = Some cfg"
  shows "passes_checks e req d ''u1'' ''t1'' thread cfg"
  using assms by (simp add: passes_checks_def select_thread_def single_def rls_thread_def)

lemma ex_passes_checks:
  "passes_checks ex_env ex_req ex_db ''u1'' ''t1'' ex_thread ex_gpt4o"
  by (rule sample_passes_checks)
    (simp_all add: ex_env_def ex_req_def ex_db_def ex_thread_def chat_threadId_def truthy_def
      getModelById_gpt4o)

lemma ex_completes: "completes (textStream ex_env)"
  by (simp add: ex_env_def)

lemma ex_chunks: "chunks (textStream ex_env) = [''Hel'', ''lo'']"
  by (simp add: ex_env_def)

lemma ex_last_is_user: "last_is_user (body_messages ex_req)"
  by (simp add: last_is_user_def lastMessage_def ex_req_def ex_hi_def)

lemma ex_user_row:
  "user_count_null e = False \<Longrightarrow> user_row e ''t1'' ex_hi ex_db = ex_user_turn"
  by (simp add: user_row_def Let_def or_zero_def count_messages_def ex_db_def
      extract_content_def ex_hi_def ex_user_turn_def)

lemma ex_thread_fields:
  "th_id ex_thread = ''t1''" "th_user_id ex_thread = ''u1''"
  "th_model_id ex_thread = ''gpt-4o''"
  by (simp_all add: ex_thread_def)

lemma ex_hi_role: "ui_role ex_hi = User"
  by (simp add: ex_hi_def)

lemma ex_save_user_message:
  "user_count_null e = False \<Longrightarrow>
   save_user_message e ''t1'' [ex_hi] ex_db =
     (if user_insertError e then ex_db else insert_message ex_user_turn ex_db,
      [CountMessages ''t1'', InsertMessage ex_user_turn (\<not> user_insertError e)])"
  by (simp add: save_user_message_def lastMessage_def Let_def ex_user_row ex_hi_role)

lemma ex_user_saved_any:
  assumes "user_count_null e = False" and "user_insertError e = False"
  shows "user_saved e ex_req ''t1'' ex_db =
     \<lparr>db_threads = [ex_thread], db_messages = [ex_user_turn]\<rparr>"
proof -
  from assms have "save_user_message e ''t1'' [ex_hi] ex_db =
      (insert_message ex_user_turn ex_db,
       [CountMessages ''t1'', InsertMessage ex_user_turn True])"
    by (simp add: ex_save_user_message)
  then show ?thesis
    by (simp add: user_saved_def ex_req_def insert_message_def ex_db_def)
qed

lemma ex_user_saved:
  "user_saved ex_env ex_req ''t1'' ex_db =
     \<lparr>db_threads = [ex_thread], db_messages = [ex_user_turn]\<rparr>"
  by (rule ex_user_saved_any) (simp_all add: ex_env_def)

lemma ex_assistant_row:
  "asst_count_null e = False \<Longrightarrow>
   assistant_row e ''t1'' ''gpt-4o'' ''Hello''
     \<lparr>db_threads = [ex_thread], db_messages = [ex_user_turn]\<rparr> = ex_assistant_turn"
  by (simp add: assistant_row_def Let_def or_zero_def count_messages_def ex_user_turn_def
      ex_assistant_turn_def)

lemma ex_first_user_message:
  "first_user_error e = False \<Longrightarrow>
   first_user_message e ''t1'' \<lparr>db_threads = ts, db_messages = [ex_user_turn]\<rparr> =
     Some (PartList [TextPart ''Hi''])"
  "first_user_error e = False \<Longrightarrow>
   first_user_message e ''t1''
     \<lparr>db_threads = ts, db_messages = [ex_user_turn, ex_assistant_turn]\<rparr> =
     Some (PartList [TextPart ''Hi''])"
  by (simp_all add: first_user_message_def select_first_user_message_def ex_user_turn_def
      ex_assistant_turn_def)


lemma ex_title: "strip_quotes (trim ex_raw_title) = ''Greeting''"
proof -
  have 1: "trim_with white_space ex_raw_title = ex_raw_title"
    by (simp add: trim_with.simps space_length_def white_space_def ex_raw_title_def)
  have 2: "trim_with (map rev white_space) (rev ex_raw_title) = rev ex_raw_title"
    by (simp add: trim_with.simps space_length_def white_space_def ex_raw_title_def)
  show ?thesis
    by (simp add: trim_def 1 2) (simp add: ex_raw_title_def strip_quotes_def is_quote_def)
qed

lemma ex_db_started_eval:
  "ex_db_started =
     \<lparr>db_threads = [ex_thread\<lparr>th_title := ''Greeting'', th_updated_at := 200\<rparr>],
      db_messages = [ex_user_turn, ex_assistant_turn]\<rparr>"
proof -
  have t: "sdk_onFinish ex_env = Some ''Hello''"
    by (simp add: ex_env_def)
  have a: "asst_count_null ex_env = False" "first_user_error ex_env = False"
    "asst_insertError ex_env = False" "db_now ex_env = 200"
    "generateText ex_env p = Inr ex_raw_title" for p
    by (simp_all add: ex_env_def)
  have s: "msg_sequence_index ex_assistant_turn = 1"
    by (simp add: ex_assistant_turn_def)
  have "fin_db (onFinish ex_env ''u1'' ''t1'' ''gpt-4o'' ''Hello''
          \<lparr>db_threads = [ex_thread], db_messages = [ex_user_turn]\<rparr>) =
     \<lparr>db_threads = [ex_thread\<lparr>th_title := ''Greeting'', th_updated_at := 200\<rparr>],
      db_messages = [ex_user_turn, ex_assistant_turn]\<rparr>"
    by (simp add: onFinish_def title_block_def Let_def ex_assistant_row a s
        ex_first_user_message ex_title insert_message_def update_thread_def rls_thread_def
        ex_thread_fields userText_of_def join_text_def)
  then show ?thesis
    by (simp add: ex_db_started_def POST_passes_checks[OF ex_passes_checks] out_db_run_chat t
        ex_user_saved ex_thread_fields)
qed

lemma ex_project: "project_message ex_hi = (User, ''Hi'')"
  by (simp add: project_message_def ex_hi_def join_text_def)

lemma ex_hi_is_last_user: "last_is_user [ex_hi]"
  by (simp add: last_is_user_def lastMessage_def ex_hi_def)

lemma ex_request_fields:
  "body_messages ex_req = [ex_hi]" "body_system ex_req = None"
  "body_messages ex_req_continue = [ex_hi, ex_hello]" "body_system ex_req_continue = None"
  "chat_threadId ex_req = Some ''t1''" "chat_threadId ex_req_continue = Some ''t1''"
  by (simp_all add: ex_req_def ex_req_continue_def chat_threadId_def truthy_def)

lemma ex_last_not_user: "\<not> last_is_user (body_messages ex_req_continue)"
  by (simp add: last_is_user_def lastMessage_def ex_request_fields ex_hello_def)

lemma ex_resolve:
  "resolve_model (mc_provider ex_gpt4o) ''gpt-4o'' = openai ''gpt-4o''"
  "resolve_model (mc_provider ex_haiku) ''haiku-4-5'' = anthropic ''claude-3-5-haiku-20241022''"
  by (simp_all add: resolve_model_def get_property_def ex_gpt4o_def ex_haiku_def
      openaiModelMap_def anthropicModelMap_def)

lemma ex_insert_fails_passes_checks:
  "passes_checks ex_env_insert_fails ex_req ex_db ''u1'' ''t1'' ex_thread ex_gpt4o"
  by (rule sample_passes_checks)
    (simp_all add: ex_env_insert_fails_def ex_env_def ex_request_fields ex_db_def
      ex_thread_fields getModelById_gpt4o)

lemma ex_provider_fails_passes_checks:
  "passes_checks ex_env_provider_fails ex_req ex_db ''u1'' ''t1'' ex_thread ex_gpt4o"
  by (rule sample_passes_checks)
    (simp_all add: ex_env_provider_fails_def ex_env_def ex_request_fields ex_db_def
      ex_thread_fields getModelById_gpt4o)

lemma ex_title_fails_passes_checks:
  "passes_checks ex_env_title_fails ex_req ex_db ''u1'' ''t1'' ex_thread ex_gpt4o"
  by (rule sample_passes_checks)
    (simp_all add: ex_env_title_fails_def ex_env_def ex_request_fields ex_db_def
      ex_thread_fields getModelById_gpt4o)

lemma ex_haiku_passes_checks:
  "passes_checks ex_env ex_req ex_db_haiku ''u1'' ''t1'' ex_thread_haiku ex_haiku"
  by (rule sample_passes_checks)
    (simp_all add: ex_env_def ex_request_fields ex_db_haiku_def ex_thread_haiku_def
      ex_thread_def getModelById_haiku)

lemma ex_continue_passes_checks:
  "passes_checks ex_env ex_req_continue ex_db ''u1'' ''t1'' ex_thread ex_gpt4o"
  by (rule sample_passes_checks)
    (simp_all add: ex_env_def ex_request_fields ex_db_def ex_thread_fields getModelById_gpt4o)

text \<open>The first of the two requests that end with an assistant message stores one
  assistant turn with sequence number 0 and no user turn.\<close>

lemma ex_db_replied_eval:
  "ex_db_replied =
     \<lparr>db_threads = [ex_thread\<lparr>th_updated_at := 200\<rparr>],
      db_messages = [ex_assistant_turn\<lparr>msg_sequence_index := 0\<rparr>]\<rparr>"
proof -
  have t: "sdk_onFinish ex_env = Some ''Hello''"
    by (simp add: ex_env_def)
  have a: "asst_count_null ex_env = False" "asst_insertError ex_env = False"
    "db_now ex_env = 200"
    by (simp_all add: ex_env_def)
  have u: "user_saved ex_env ex_req_continue ''t1'' ex_db = ex_db"
    using ex_last_not_user
    by (simp add: user_saved_def save_user_message_def last_is_user_def split: option.splits)
  have r: "assistant_row ex_env ''t1'' ''gpt-4o'' ''Hello''
        \<lparr>db_threads = [ex_thread], db_messages = []\<rparr> =
      ex_assistant_turn\<lparr>msg_sequence_index := 0\<rparr>"
    by (simp add: assistant_row_def Let_def or_zero_def count_messages_def a
        ex_assistant_turn_def)
  have "fin_db (onFinish ex_env ''u1'' ''t1'' ''gpt-4o'' ''Hello''
          \<lparr>db_threads = [ex_thread], db_messages = []\<rparr>) =
     \<lparr>db_threads = [ex_thread\<lparr>th_updated_at := 200\<rparr>],
      db_messages = [ex_assistant_turn\<lparr>msg_sequence_index := 0\<rparr>]\<rparr>"
    by (simp add: onFinish_def Let_def r a insert_message_def update_thread_def rls_thread_def
        ex_thread_fields)
  then show ?thesis
    by (simp add: ex_db_replied_def POST_passes_checks[OF ex_continue_passes_checks]
        out_db_run_chat t u ex_thread_fields)
      (simp add: ex_db_def)
qed

lemma ex_replied_passes_checks:
  "passes_checks ex_env ex_req_continue ex_db_replied ''u1'' ''t1''
     (ex_thread\<lparr>th_updated_at := 200\<rparr>) ex_gpt4o"
  by (rule sample_passes_checks)
    (simp_all add: ex_env_def ex_request_fields ex_db_replied_eval ex_thread_fields
      getModelById_gpt4o)

lemma ex_replied_user_saved:
  "user_saved ex_env ex_req_continue ''t1'' ex_db_replied = ex_db_replied"
  using ex_last_not_user
  by (simp add: user_saved_def save_user_message_def last_is_user_def split: option.splits)




text \<open>A text sequence that ends at once without raising, with the callback never run:
  the response is the complete stream without increments, and no assistant turn is
  written.\<close>

lemma ex_no_callback:
  "out_response (POST ex_env_no_callback ex_req ex_db) =
     EventStream
       [Start, StartStep, TextStart ''msg_1700000000000'', TextEnd ''msg_1700000000000'',
        FinishStep, Finish ''stop'', DoneMarker]
       Closed"
  "stored_rows Assistant ex_db (out_db (POST ex_env_no_callback ex_req ex_db)) = []"
  "out_callback (POST ex_env_no_callback ex_req ex_db) = NotRun"
proof -
  have p: "passes_checks ex_env_no_callback ex_req ex_db ''u1'' ''t1'' ex_thread ex_gpt4o"
    by (rule sample_passes_checks)
      (simp_all add: ex_env_no_callback_def ex_env_def ex_request_fields ex_db_def
        ex_thread_fields getModelById_gpt4o)
  have f: "sdk_onFinish ex_env_no_callback = None" "textStream ex_env_no_callback = StreamDone"
    "date_now ex_env_no_callback = 1700000000000"
    by (simp_all add: ex_env_no_callback_def ex_env_def)
  show "out_response (POST ex_env_no_callback ex_req ex_db) =
     EventStream
       [Start, StartStep, TextStart ''msg_1700000000000'', TextEnd ''msg_1700000000000'',
        FinishStep, Finish ''stop'', DoneMarker]
       Closed"
    by (simp add: POST_passes_checks[OF p] out_response_run_chat f customStream_def Let_def
        decimal_ex)
  show "stored_rows Assistant ex_db (out_db (POST ex_env_no_callback ex_req ex_db)) = []"
    by (simp add: POST_passes_checks[OF p] stored_assistant_rows_run_chat f)
  show "out_callback (POST ex_env_no_callback ex_req ex_db) = NotRun"
    by (simp add: POST_passes_checks[OF p] out_callback_run_chat f)
qed

section \<open>Saving the user turn\<close>

text \<open>
  Claim C1, as the code has it. For every chat request that passes the checks made
  before anything is written, the provider is invoked once. If the last entry of the
  inbound message list has role \<open>user\<close>, exactly one insert is made before the provider
  is invoked, and none after it for a user turn: the insert of a new user turn whose
  sequence number is the turn count of the conversation read just before (\<open>0\<close> when the
  count read is \<open>null\<close>). That turn is then the one user turn the request has stored,
  unless the store reports an error for the insert: the handler logs the error and
  goes on, and the request has stored no user turn. If the last entry does not have role
  \<open>user\<close> (or there is no entry), no user turn is written.
\<close>

theorem user_turn_saved_before_provider:
  assumes "passes_checks e req d uid tid thread cfg"
  shows
    "filter is_StreamText (out_trace (POST e req d)) =
       [StreamText (resolve_model (mc_provider cfg) (th_model_id thread))
          (map project_message (body_messages req)) (body_system req)]
     \<and> (last_is_user (body_messages req) \<longrightarrow>
          filter is_InsertMessage (before_provider (out_trace (POST e req d))) =
            [InsertMessage (user_row e tid (last (body_messages req)) d) (\<not> user_insertError e)]
          \<and> filter is_user_insert (out_trace (POST e req d)) =
            [InsertMessage (user_row e tid (last (body_messages req)) d) (\<not> user_insertError e)]
          \<and> msg_role (user_row e tid (last (body_messages req)) d) = User
          \<and> msg_thread_id (user_row e tid (last (body_messages req)) d) = tid
          \<and> msg_sequence_index (user_row e tid (last (body_messages req)) d) =
              (if user_count_null e then 0 else count_messages tid d)
          \<and> stored_rows User d (out_db (POST e req d)) =
              (if user_insertError e then []
               else [user_row e tid (last (body_messages req)) d]))
     \<and> (\<not> last_is_user (body_messages req) \<longrightarrow>
          filter is_user_insert (out_trace (POST e req d)) = []
          \<and> stored_rows User d (out_db (POST e req d)) = [])"
proof -
  have p: "POST e req d = run_chat e req uid tid (th_model_id thread) cfg d"
    by (rule POST_passes_checks[OF assms])
  have a: "filter is_StreamText (out_trace (POST e req d)) =
       [StreamText (resolve_model (mc_provider cfg) (th_model_id thread))
          (map project_message (body_messages req)) (body_system req)]"
    by (simp add: p provider_calls_run_chat)
  have b: "filter is_InsertMessage (before_provider (out_trace (POST e req d))) =
            [InsertMessage (user_row e tid (last (body_messages req)) d) (\<not> user_insertError e)]"
    if "last_is_user (body_messages req)"
    using that by (simp add: p before_provider_run_chat save_user_message_trace)
  have c: "filter is_user_insert (out_trace (POST e req d)) =
     (if last_is_user (body_messages req)
      then [InsertMessage (user_row e tid (last (body_messages req)) d) (\<not> user_insertError e)]
      else [])"
    by (simp add: p user_inserts_run_chat)
  have s: "msg_sequence_index (user_row e tid (last (body_messages req)) d) =
              (if user_count_null e then 0 else count_messages tid d)"
    "msg_thread_id (user_row e tid (last (body_messages req)) d) = tid"
    by (simp_all add: user_row_def or_zero_def Let_def)
  have r: "stored_rows User d (out_db (POST e req d)) =
     (if last_is_user (body_messages req) \<and> \<not> user_insertError e
      then [user_row e tid (last (body_messages req)) d] else [])"
    by (simp add: p stored_user_rows_run_chat)
  show ?thesis
    using a b c s r by simp
qed

theorem user_turn_saved_before_provider_witness:
  "passes_checks ex_env ex_req ex_db ''u1'' ''t1'' ex_thread ex_gpt4o
   \<and> last_is_user (body_messages ex_req)
   \<and> filter is_InsertMessage (before_provider (out_trace (POST ex_env ex_req ex_db))) =
       [InsertMessage ex_user_turn True]
   \<and> msg_sequence_index ex_user_turn = 0
   \<and> stored_rows User ex_db (out_db (POST ex_env ex_req ex_db)) = [ex_user_turn]
   \<and> passes_checks ex_env ex_req_continue ex_db ''u1'' ''t1'' ex_thread ex_gpt4o
   \<and> \<not> last_is_user (body_messages ex_req_continue)
   \<and> filter is_user_insert (out_trace (POST ex_env ex_req_continue ex_db)) = []
   \<and> stored_rows User ex_db (out_db (POST ex_env ex_req_continue ex_db)) = []"
proof -
  have f: "user_count_null ex_env = False" "user_insertError ex_env = False"
    by (simp_all add: ex_env_def)
  from user_turn_saved_before_provider[OF ex_passes_checks] ex_last_is_user
  have 1: "filter is_InsertMessage (before_provider (out_trace (POST ex_env ex_req ex_db))) =
       [InsertMessage ex_user_turn True]
     \<and> stored_rows User ex_db (out_db (POST ex_env ex_req ex_db)) = [ex_user_turn]"
    by (simp add: ex_request_fields ex_user_row f)
  from user_turn_saved_before_provider[OF ex_continue_passes_checks] ex_last_not_user
  have 2: "filter is_user_insert (out_trace (POST ex_env ex_req_continue ex_db)) = []
     \<and> stored_rows User ex_db (out_db (POST ex_env ex_req_continue ex_db)) = []"
    by simp
  have 3: "msg_sequence_index ex_user_turn = 0"
    by (simp add: ex_user_turn_def)
  from 1 2 3 ex_passes_checks ex_continue_passes_checks ex_last_is_user ex_last_not_user
  show ?thesis by simp
qed

text \<open>
  Claim C1 as it is stated fails when the store rejects the insert: the last inbound
  message is a user message and the provider is invoked, yet the request has stored no
  user turn.
\<close>

theorem user_turn_lost_when_insert_fails:
  "last_is_user (body_messages ex_req)
   \<and> filter is_StreamText (out_trace (POST ex_env_insert_fails ex_req ex_db)) =
       [StreamText (openai ''gpt-4o'') [(User, ''Hi'')] None]
   \<and> stored_rows User ex_db (out_db (POST ex_env_insert_fails ex_req ex_db)) = []"
proof -
  have f: "user_insertError ex_env_insert_fails = True"
    by (simp add: ex_env_insert_fails_def)
  show ?thesis
    by (simp add: ex_hi_is_last_user POST_passes_checks[OF ex_insert_fails_passes_checks]
        provider_calls_run_chat stored_user_rows_run_chat f ex_request_fields ex_project
        ex_thread_fields ex_resolve)
qed

section \<open>The assistant turn holds the text that was streamed\<close>



section \<open>The stream encoder\<close>

text \<open>
  Claim C3. When the provider's text sequence ends without an error, the events put on
  the stream are exactly \<open>start\<close>, \<open>start-step\<close>, \<open>text-start\<close>, one \<open>text-delta\<close> for
  each increment of the provider in the order of arrival, \<open>text-end\<close>, \<open>finish-step\<close>,
  \<open>finish\<close> and the end marker, and the stream is closed. There is one \<open>text-start\<close> and
  one \<open>text-end\<close>, and they and every \<open>text-delta\<close> carry the same message id, the one
  made from the clock when the stream starts.
\<close>

theorem wire_events_of_completed_stream:
  assumes "passes_checks e req d uid tid thread cfg"
    and "completes (textStream e)"
  shows "out_response (POST e req d) =
     EventStream
       ([Start, StartStep, TextStart (''msg_'' @ decimal (date_now e))]
          @ map (TextDelta (''msg_'' @ decimal (date_now e))) (chunks (textStream e))
          @ [TextEnd (''msg_'' @ decimal (date_now e)), FinishStep, Finish ''stop'',
             DoneMarker])
       Closed"
  by (simp add: POST_passes_checks[OF assms(1)] out_response_run_chat
      customStream_completes[OF assms(2)])

theorem wire_events_of_completed_stream_witness:
  "passes_checks ex_env ex_req ex_db ''u1'' ''t1'' ex_thread ex_gpt4o
   \<and> completes (textStream ex_env)
   \<and> out_response (POST ex_env ex_req ex_db) =
       EventStream
         [Start, StartStep, TextStart ''msg_1700000000000'',
          TextDelta ''msg_1700000000000'' ''Hel'', TextDelta ''msg_1700000000000'' ''lo'',
          TextEnd ''msg_1700000000000'', FinishStep, Finish ''stop'', DoneMarker]
         Closed"
proof -
  from wire_events_of_completed_stream[OF ex_passes_checks ex_completes]
  have "out_response (POST ex_env ex_req ex_db) =
       EventStream
         [Start, StartStep, TextStart ''msg_1700000000000'',
          TextDelta ''msg_1700000000000'' ''Hel'', TextDelta ''msg_1700000000000'' ''lo'',
          TextEnd ''msg_1700000000000'', FinishStep, Finish ''stop'', DoneMarker]
         Closed"
    by (simp add: ex_env_def decimal_ex)
  with ex_passes_checks ex_completes show ?thesis by simp
qed

text \<open>
  Claim C4. When the provider's text sequence raises an error after some increments,
  the stream is put into the error state with that error: the events on it are \<open>start\<close>,
  \<open>start-step\<close>, \<open>text-start\<close> and one \<open>text-delta\<close> for each increment that arrived
  before the error, and none of \<open>text-end\<close>, \<open>finish-step\<close>, \<open>finish\<close> and the end marker
  is among them.
\<close>

theorem wire_events_of_failed_stream:
  assumes "passes_checks e req d uid tid thread cfg"
    and "stream_error (textStream e) = Some err"
  shows
    "out_response (POST e req d) =
       EventStream
         ([Start, StartStep, TextStart (''msg_'' @ decimal (date_now e))]
            @ map (TextDelta (''msg_'' @ decimal (date_now e))) (chunks (textStream e)))
         (Errored err)
     \<and> filter is_closing (response_events (out_response (POST e req d))) = []"
proof -
  have p: "POST e req d = run_chat e req uid tid (th_model_id thread) cfg d"
    by (rule POST_passes_checks[OF assms(1)])
  have r: "out_response (POST e req d) =
       EventStream
         ([Start, StartStep, TextStart (''msg_'' @ decimal (date_now e))]
            @ map (TextDelta (''msg_'' @ decimal (date_now e))) (chunks (textStream e)))
         (Errored err)"
    by (simp add: p out_response_run_chat customStream_error[OF assms(2)])
  then show ?thesis
    by (simp add: no_closing_in_deltas)
qed

theorem wire_events_of_failed_stream_witness:
  "passes_checks ex_env_provider_fails ex_req ex_db ''u1'' ''t1'' ex_thread ex_gpt4o
   \<and> stream_error (textStream ex_env_provider_fails) = Some ''overloaded''
   \<and> out_response (POST ex_env_provider_fails ex_req ex_db) =
       EventStream
         [Start, StartStep, TextStart ''msg_1700000000000'',
          TextDelta ''msg_1700000000000'' ''Hel'', TextDelta ''msg_1700000000000'' ''lo'']
         (Errored ''overloaded'')
   \<and> filter is_closing (response_events (out_response (POST ex_env_provider_fails ex_req ex_db)))
       = []"
proof -
  have s: "stream_error (textStream ex_env_provider_fails) = Some ''overloaded''"
    by (simp add: ex_env_provider_fails_def)
  from wire_events_of_failed_stream[OF ex_provider_fails_passes_checks s]
  have "out_response (POST ex_env_provider_fails ex_req ex_db) =
       EventStream
         [Start, StartStep, TextStart ''msg_1700000000000'',
          TextDelta ''msg_1700000000000'' ''Hel'', TextDelta ''msg_1700000000000'' ''lo'']
         (Errored ''overloaded'')
     \<and> filter is_closing
         (response_events (out_response (POST ex_env_provider_fails ex_req ex_db))) = []"
    by (simp add: ex_env_provider_fails_def ex_env_def decimal_ex)
  with ex_provider_fails_passes_checks s show ?thesis by simp
qed

section \<open>A model id that is not in the registry\<close>

text \<open>
  Claim C5. When the model id stored on the conversation of a request has no entry in
  the registry, the chat call answers with the error \<open>Invalid model\<close> (status 400); the
  store is as it was, and the request has made no insert, has not invoked the provider
  and has not invoked the title model: its only calls are the authentication and the
  selection of the thread.
\<close>

theorem unknown_model_rejected_before_any_effect:
  assumes "auth_user e = Some uid" and "chat_threadId req = Some tid" and "tid \<noteq> []"
    and "threadError e = False" and "select_thread uid tid d = Some thread"
    and "getModelById (th_model_id thread) = None"
  shows
    "out_response (POST e req d) = JsonError 400 (''Invalid model: '' @ th_model_id thread)
     \<and> out_db (POST e req d) = d
     \<and> out_trace (POST e req d) = [AuthGetUser, SelectThread tid]
     \<and> filter is_InsertMessage (out_trace (POST e req d)) = []
     \<and> filter is_StreamText (out_trace (POST e req d)) = []
     \<and> filter is_GenerateText (out_trace (POST e req d)) = []"
  using assms by (simp add: POST_def error_outcome_def)

theorem unknown_model_rejected_before_any_effect_witness:
  "auth_user ex_env = Some ''u1'' \<and> chat_threadId ex_req = Some ''t1'' \<and> ''t1'' \<noteq> []
   \<and> threadError ex_env = False
   \<and> select_thread ''u1'' ''t1'' ex_db_unknown = Some ex_thread_unknown
   \<and> getModelById (th_model_id ex_thread_unknown) = None
   \<and> out_response (POST ex_env ex_req ex_db_unknown) = JsonError 400 ''Invalid model: gpt-3''
   \<and> out_db (POST ex_env ex_req ex_db_unknown) = ex_db_unknown
   \<and> out_trace (POST ex_env ex_req ex_db_unknown) = [AuthGetUser, SelectThread ''t1'']"
proof -
  have h: "auth_user ex_env = Some ''u1''" "chat_threadId ex_req = Some ''t1''"
    "''t1'' \<noteq> []" "threadError ex_env = False"
    "select_thread ''u1'' ''t1'' ex_db_unknown = Some ex_thread_unknown"
    "getModelById (th_model_id ex_thread_unknown) = None"
    by (simp_all add: ex_env_def ex_request_fields select_thread_def single_def rls_thread_def
        ex_db_unknown_def ex_thread_unknown_def ex_thread_def getModelById_gpt3)
  have m: "th_model_id ex_thread_unknown = ''gpt-3''"
    by (simp add: ex_thread_unknown_def)
  from unknown_model_rejected_before_any_effect[OF h]
  have "out_response (POST ex_env ex_req ex_db_unknown) = JsonError 400 ''Invalid model: gpt-3''
     \<and> out_db (POST ex_env ex_req ex_db_unknown) = ex_db_unknown
     \<and> out_trace (POST ex_env ex_req ex_db_unknown) = [AuthGetUser, SelectThread ''t1'']"
    by (simp add: m)
  with h show ?thesis by simp
qed

section \<open>Title synthesis\<close>

text \<open>
  Claim C6, as the code has it. For every request whose completion callback is run, the
  title model is invoked if and only if the sequence number given to the assistant turn
  is 1 and the lookup of the first user turn of the conversation returns a row; it is
  invoked at most once, and never for another sequence number. The sequence number is
  the turn count read at the time of the assistant write (\<open>0\<close> when the count read is
  \<open>null\<close>).
\<close>

theorem title_synthesis_iff_first_reply_to_a_user_turn:
  assumes "passes_checks e req d uid tid thread cfg"
    and "sdk_onFinish e = Some text"
  shows
    "(filter is_GenerateText (out_trace (POST e req d)) \<noteq> []) =
       (msg_sequence_index
          (assistant_row e tid (th_model_id thread) text (user_saved e req tid d)) = 1
        \<and> first_user_message e tid (user_saved e req tid d) \<noteq> None)
     \<and> length (filter is_GenerateText (out_trace (POST e req d))) \<le> 1
     \<and> msg_sequence_index
          (assistant_row e tid (th_model_id thread) text (user_saved e req tid d)) =
         (if asst_count_null e then 0 else count_messages tid (user_saved e req tid d))
     \<and> filter is_assistant_insert (out_trace (POST e req d)) =
         [InsertMessage
            (assistant_row e tid (th_model_id thread) text (user_saved e req tid d))
            (\<not> asst_insertError e)]"
proof -
  have p: "POST e req d = run_chat e req uid tid (th_model_id thread) cfg d"
    by (rule POST_passes_checks[OF assms(1)])
  have i: "filter is_assistant_insert (out_trace (POST e req d)) =
         [InsertMessage
            (assistant_row e tid (th_model_id thread) text (user_saved e req tid d))
            (\<not> asst_insertError e)]"
    by (simp add: p assistant_inserts_run_chat assms(2))
  have g: "(filter is_GenerateText (out_trace (POST e req d)) \<noteq> []) =
       (msg_sequence_index
          (assistant_row e tid (th_model_id thread) text (user_saved e req tid d)) = 1
        \<and> first_user_message e tid (user_saved e req tid d) \<noteq> None)"
    unfolding p title_calls_run_chat assms(2)
    by (cases "first_user_message e tid (user_saved e req tid d)") simp_all
  have n: "length (filter is_GenerateText (out_trace (POST e req d))) \<le> 1"
    unfolding p title_calls_run_chat assms(2)
    by (cases "first_user_message e tid (user_saved e req tid d)") simp_all
  from i g n show ?thesis
    by (simp add: sequence_index_assistant_row)
qed

theorem title_synthesis_iff_first_reply_to_a_user_turn_witness:
  "passes_checks ex_env ex_req ex_db ''u1'' ''t1'' ex_thread ex_gpt4o
   \<and> sdk_onFinish ex_env = Some ''Hello''
   \<and> count_messages ''t1'' (user_saved ex_env ex_req ''t1'' ex_db) = 1
   \<and> first_user_message ex_env ''t1'' (user_saved ex_env ex_req ''t1'' ex_db) =
       Some (PartList [TextPart ''Hi''])
   \<and> filter is_GenerateText (out_trace (POST ex_env ex_req ex_db)) \<noteq> []
   \<and> filter is_assistant_insert (out_trace (POST ex_env ex_req ex_db)) =
       [InsertMessage ex_assistant_turn True]"
proof -
  have f: "asst_count_null ex_env = False" "asst_insertError ex_env = False"
    "first_user_error ex_env = False"
    by (simp_all add: ex_env_def)
  have t: "sdk_onFinish ex_env = Some ''Hello''"
    by (simp add: ex_env_def)
  have c: "count_messages ''t1'' (user_saved ex_env ex_req ''t1'' ex_db) = 1"
    by (simp add: ex_user_saved count_messages_def ex_user_turn_def)
  have u: "first_user_message ex_env ''t1'' (user_saved ex_env ex_req ''t1'' ex_db) =
       Some (PartList [TextPart ''Hi''])"
    by (simp add: ex_user_saved ex_first_user_message f)
  from title_synthesis_iff_first_reply_to_a_user_turn[OF ex_passes_checks t]
  have "filter is_GenerateText (out_trace (POST ex_env ex_req ex_db)) \<noteq> []
     \<and> filter is_assistant_insert (out_trace (POST ex_env ex_req ex_db)) =
       [InsertMessage ex_assistant_turn True]"
    using c u by (simp add: f ex_thread_fields ex_user_saved ex_assistant_row)
  with ex_passes_checks t c u show ?thesis by simp
qed

text \<open>
  Claim C6 as it is stated fails in a conversation without a user turn. The request
  \<open>ex_req_continue\<close>, whose message list ends with an assistant message, is sent twice to
  the empty thread. The second request stores its assistant turn with sequence number 1,
  and the title model is not invoked: the lookup of the first user turn finds no row.
\<close>

theorem no_title_for_first_reply_without_user_turn:
  "map msg_sequence_index
     (stored_rows Assistant ex_db_replied (out_db (POST ex_env ex_req_continue ex_db_replied)))
     = [1]
   \<and> filter is_GenerateText (out_trace (POST ex_env ex_req_continue ex_db_replied)) = []"
proof -
  have f: "asst_count_null ex_env = False" "asst_insertError ex_env = False"
    "first_user_error ex_env = False"
    by (simp_all add: ex_env_def)
  have t: "sdk_onFinish ex_env = Some ''Hello''"
    by (simp add: ex_env_def)
  have c: "count_messages ''t1'' ex_db_replied = 1"
    by (simp add: ex_db_replied_eval count_messages_def ex_assistant_turn_def)
  have u: "first_user_message ex_env ''t1'' ex_db_replied = None"
    by (simp add: ex_db_replied_eval first_user_message_def select_first_user_message_def
        ex_assistant_turn_def)
  have 1: "map msg_sequence_index
     (stored_rows Assistant ex_db_replied (out_db (POST ex_env ex_req_continue ex_db_replied)))
     = [1]"
    by (simp add: POST_passes_checks[OF ex_replied_passes_checks]
        stored_assistant_rows_run_chat t f ex_replied_user_saved sequence_index_assistant_row c)
  have 2: "filter is_GenerateText (out_trace (POST ex_env ex_req_continue ex_db_replied)) = []"
    by (simp add: POST_passes_checks[OF ex_replied_passes_checks]
        title_calls_run_chat t ex_replied_user_saved u)
  from 1 2 show ?thesis by simp
qed

text \<open>
  Claim C7. When title synthesis is attempted and the title model fails, the error is
  caught and does not leave the completion callback: the callback ends normally, its
  last call is the update of the conversation that sets the last-activity timestamp
  (and no title), and the conversation in the store carries the new timestamp with its
  title and model as they were. Title synthesis is attempted when the callback is run,
  the sequence number of the assistant turn is 1 and the first user turn is found.
\<close>

theorem title_failure_is_swallowed:
  assumes "passes_checks e req d uid tid thread cfg"
    and "sdk_onFinish e = Some text"
    and "msg_sequence_index
          (assistant_row e tid (th_model_id thread) text (user_saved e req tid d)) = 1"
    and "first_user_message e tid (user_saved e req tid d) = Some c"
    and "generateText e (titlePrompt (userText_of c) text) = Inl err"
  shows
    "filter is_GenerateText (out_trace (POST e req d)) =
       [GenerateText (openai ''gpt-4o-mini'') (titlePrompt (userText_of c) text)]
     \<and> last (out_trace (POST e req d)) = UpdateThread tid None
     \<and> select_thread uid tid (out_db (POST e req d)) =
         Some (thread\<lparr>th_updated_at := db_now e\<rparr>)
     \<and> out_callback (POST e req d) = Returned"
proof -
  have p: "POST e req d = run_chat e req uid tid (th_model_id thread) cfg d"
    by (rule POST_passes_checks[OF assms(1)])
  have sel: "select_thread uid tid d = Some thread"
    using assms(1) by (simp add: passes_checks_def)
  note f = onFinish_title_throws[OF assms(3,4,5)]
  have g: "filter is_GenerateText (out_trace (POST e req d)) =
       [GenerateText (openai ''gpt-4o-mini'') (titlePrompt (userText_of c) text)]"
    by (simp add: p title_calls_run_chat assms(2,3,4))
  have l: "last (out_trace (POST e req d)) = UpdateThread tid None"
    by (simp add: p out_trace_run_chat assms(2) f)
  have u: "select_thread uid tid (out_db (POST e req d)) =
         Some (thread\<lparr>th_updated_at := db_now e\<rparr>)"
    by (simp add: p out_db_run_chat assms(2) f select_thread_update_thread sel)
  have r: "out_callback (POST e req d) = Returned"
    by (simp add: p out_callback_run_chat assms(2) f callback_of_def)
  from g l u r show ?thesis by simp
qed

theorem title_failure_is_swallowed_witness:
  "passes_checks ex_env_title_fails ex_req ex_db ''u1'' ''t1'' ex_thread ex_gpt4o
   \<and> sdk_onFinish ex_env_title_fails = Some ''Hello''
   \<and> count_messages ''t1'' (user_saved ex_env_title_fails ex_req ''t1'' ex_db) = 1
   \<and> first_user_message ex_env_title_fails ''t1'' (user_saved ex_env_title_fails ex_req ''t1'' ex_db)
       = Some (PartList [TextPart ''Hi''])
   \<and> generateText ex_env_title_fails ex_prompt = Inl ''rate limited''
   \<and> filter is_GenerateText (out_trace (POST ex_env_title_fails ex_req ex_db)) =
       [GenerateText (openai ''gpt-4o-mini'') ex_prompt]
   \<and> last (out_trace (POST ex_env_title_fails ex_req ex_db)) = UpdateThread ''t1'' None
   \<and> select_thread ''u1'' ''t1'' (out_db (POST ex_env_title_fails ex_req ex_db)) =
       Some (ex_thread\<lparr>th_updated_at := 200\<rparr>)
   \<and> out_callback (POST ex_env_title_fails ex_req ex_db) = Returned"
proof -
  have f: "user_count_null ex_env_title_fails = False"
    "user_insertError ex_env_title_fails = False"
    "asst_count_null ex_env_title_fails = False"
    "first_user_error ex_env_title_fails = False"
    "db_now ex_env_title_fails = 200"
    "sdk_onFinish ex_env_title_fails = Some ''Hello''"
    "generateText ex_env_title_fails p = Inl ''rate limited''" for p
    by (simp_all add: ex_env_title_fails_def ex_env_def)
  have us: "user_saved ex_env_title_fails ex_req ''t1'' ex_db =
      \<lparr>db_threads = [ex_thread], db_messages = [ex_user_turn]\<rparr>"
    by (rule ex_user_saved_any) (simp_all add: f)
  have c: "count_messages ''t1'' (user_saved ex_env_title_fails ex_req ''t1'' ex_db) = 1"
    by (simp add: us count_messages_def ex_user_turn_def)
  have a: "msg_sequence_index
      (assistant_row ex_env_title_fails ''t1'' (th_model_id ex_thread) ''Hello''
         (user_saved ex_env_title_fails ex_req ''t1'' ex_db)) = 1"
    by (simp add: sequence_index_assistant_row f c)
  have u: "first_user_message ex_env_title_fails ''t1''
      (user_saved ex_env_title_fails ex_req ''t1'' ex_db) = Some (PartList [TextPart ''Hi''])"
    by (simp add: us ex_first_user_message f)
  have g: "generateText ex_env_title_fails
      (titlePrompt (userText_of (PartList [TextPart ''Hi''])) ''Hello'') = Inl ''rate limited''"
    by (rule f)
  have pr: "titlePrompt (userText_of (PartList [TextPart ''Hi''])) ''Hello'' = ex_prompt"
    by (simp add: ex_prompt_def userText_of_def join_text_def)
  from title_failure_is_swallowed[OF ex_title_fails_passes_checks f(6) a u g]
  have "filter is_GenerateText (out_trace (POST ex_env_title_fails ex_req ex_db)) =
       [GenerateText (openai ''gpt-4o-mini'') ex_prompt]
     \<and> last (out_trace (POST ex_env_title_fails ex_req ex_db)) = UpdateThread ''t1'' None
     \<and> select_thread ''u1'' ''t1'' (out_db (POST ex_env_title_fails ex_req ex_db)) =
         Some (ex_thread\<lparr>th_updated_at := 200\<rparr>)
     \<and> out_callback (POST ex_env_title_fails ex_req ex_db) = Returned"
    unfolding pr by (simp add: f)
  with ex_title_fails_passes_checks f(6) c u f(7)[of ex_prompt] show ?thesis by simp
qed

section \<open>The model of a conversation\<close>

text \<open>
  Claim C8 says that once a conversation has a turn, no operation changes its model id.
  The chat handler and a \<open>PATCH\<close> that names no model keep every model id
  (\<open>POST_keeps_model_ids\<close>, \<open>PATCH_without_model_id_keeps_model_ids\<close>), and the client
  sends a \<open>PATCH\<close> with a model id only for a thread without messages. The handler of
  \<open>PATCH\<close> itself makes no such check: the conversation \<open>t1\<close> has two turns and the model
  \<open>gpt-4o\<close>, and a \<open>PATCH\<close> by its owner with \<open>model_id = haiku-4-5\<close> is answered with the
  updated thread and leaves the conversation on \<open>haiku-4-5\<close>.
\<close>

theorem PATCH_changes_model_of_started_conversation:
  "count_messages ''t1'' ex_db_started = 2
   \<and> map th_model_id (db_threads ex_db_started) = [''gpt-4o'']
   \<and> fst (PATCH ex_patch_env ''t1'' ex_patch_body ex_db_started) =
       PatchThread (ex_thread\<lparr>th_title := ''Greeting'', th_model_id := ''haiku-4-5'',
                               th_updated_at := 300\<rparr>)
   \<and> map th_model_id (db_threads (snd (PATCH ex_patch_env ''t1'' ex_patch_body ex_db_started))) =
       [''haiku-4-5'']"
  by (simp add: ex_db_started_eval count_messages_def ex_user_turn_def ex_assistant_turn_def
      PATCH_def ex_patch_env_def ex_patch_body_def Let_def update_thread_def rls_thread_def
      apply_updates_def select_thread_def single_def ex_thread_def)

text \<open>
  Claim C9, as the code has it. For every request whose completion callback is run, the
  model name field of the assistant turn it stores is the model id stored on the
  conversation, the id of the registry entry. The provider is invoked with the model
  that resolution gives for that entry. For every entry of the registry whose provider
  is not \<open>anthropic\<close> the concrete name of that model is that same id; the one entry of
  provider \<open>anthropic\<close> is \<open>haiku-4-5\<close>, and its concrete name is
  \<open>claude-3-5-haiku-20241022\<close>.
\<close>

theorem assistant_turn_records_registry_id:
  assumes "passes_checks e req d uid tid thread cfg"
    and "sdk_onFinish e = Some text"
  shows
    "map msg_model_name (stored_rows Assistant d (out_db (POST e req d))) =
       (if asst_insertError e then [] else [Some (th_model_id thread)])
     \<and> provider_models (out_trace (POST e req d)) =
         [resolve_model (mc_provider cfg) (th_model_id thread)]
     \<and> (mc_provider cfg \<noteq> Anthropic \<longrightarrow>
          map concrete_model_name (provider_models (out_trace (POST e req d))) =
            [Some (th_model_id thread)])
     \<and> (mc_provider cfg = Anthropic \<longrightarrow>
          th_model_id thread = ''haiku-4-5''
          \<and> provider_models (out_trace (POST e req d)) =
              [anthropic ''claude-3-5-haiku-20241022''])"
proof -
  have p: "POST e req d = run_chat e req uid tid (th_model_id thread) cfg d"
    by (rule POST_passes_checks[OF assms(1)])
  have g: "getModelById (th_model_id thread) = Some cfg"
    using assms(1) by (simp add: passes_checks_def)
  have a: "map msg_model_name (stored_rows Assistant d (out_db (POST e req d))) =
       (if asst_insertError e then [] else [Some (th_model_id thread)])"
    by (simp add: p stored_assistant_rows_run_chat assms(2) assistant_row_def Let_def)
  have b: "provider_models (out_trace (POST e req d)) =
         [resolve_model (mc_provider cfg) (th_model_id thread)]"
    by (simp add: p provider_models_run_chat)
  have h: "th_model_id thread = ''haiku-4-5''
      \<and> resolve_model (mc_provider cfg) (th_model_id thread) =
          anthropic ''claude-3-5-haiku-20241022''"
    if "mc_provider cfg = Anthropic"
    using registry_anthropic[OF g that] that
    by (simp add: resolve_model_def get_property_def anthropicModelMap_def)
  from registry_verbatim[OF g] h show ?thesis
    unfolding a b by auto
qed

theorem assistant_turn_records_registry_id_witness:
  "passes_checks ex_env ex_req ex_db ''u1'' ''t1'' ex_thread ex_gpt4o
   \<and> sdk_onFinish ex_env = Some ''Hello''
   \<and> mc_provider ex_gpt4o \<noteq> Anthropic
   \<and> map msg_model_name (stored_rows Assistant ex_db (out_db (POST ex_env ex_req ex_db))) =
       [Some ''gpt-4o'']
   \<and> provider_models (out_trace (POST ex_env ex_req ex_db)) = [openai ''gpt-4o'']
   \<and> map concrete_model_name (provider_models (out_trace (POST ex_env ex_req ex_db))) =
       [Some ''gpt-4o'']
   \<and> passes_checks ex_env ex_req ex_db_haiku ''u1'' ''t1'' ex_thread_haiku ex_haiku
   \<and> mc_provider ex_haiku = Anthropic
   \<and> map msg_model_name
       (stored_rows Assistant ex_db_haiku (out_db (POST ex_env ex_req ex_db_haiku))) =
       [Some ''haiku-4-5'']
   \<and> provider_models (out_trace (POST ex_env ex_req ex_db_haiku)) =
       [anthropic ''claude-3-5-haiku-20241022'']"
proof -
  have f: "asst_insertError ex_env = False" "sdk_onFinish ex_env = Some ''Hello''"
    by (simp_all add: ex_env_def)
  have n: "mc_provider ex_gpt4o \<noteq> Anthropic" "mc_provider ex_haiku = Anthropic"
    by (simp_all add: ex_gpt4o_def ex_haiku_def)
  have m: "th_model_id ex_thread_haiku = ''haiku-4-5''"
    by (simp add: ex_thread_haiku_def)
  from assistant_turn_records_registry_id[OF ex_passes_checks f(2)] n(1)
  have 1: "map msg_model_name (stored_rows Assistant ex_db (out_db (POST ex_env ex_req ex_db))) =
       [Some ''gpt-4o'']
     \<and> provider_models (out_trace (POST ex_env ex_req ex_db)) = [openai ''gpt-4o'']
     \<and> map concrete_model_name (provider_models (out_trace (POST ex_env ex_req ex_db))) =
       [Some ''gpt-4o'']"
    by (simp add: f ex_thread_fields ex_resolve)
  from assistant_turn_records_registry_id[OF ex_haiku_passes_checks f(2)] n(2)
  have 2: "map msg_model_name
       (stored_rows Assistant ex_db_haiku (out_db (POST ex_env ex_req ex_db_haiku))) =
       [Some ''haiku-4-5'']
     \<and> provider_models (out_trace (POST ex_env ex_req ex_db_haiku)) =
       [anthropic ''claude-3-5-haiku-20241022'']"
    by (simp add: f m resolve_model_def get_property_def anthropicModelMap_def)
  from 1 2 ex_passes_checks ex_haiku_passes_checks f(2) n show ?thesis by simp
qed

text \<open>
  Claim C9 as it is stated fails for the registry's Anthropic entry: the conversation is
  on \<open>haiku-4-5\<close>, the provider is invoked with the concrete model
  \<open>claude-3-5-haiku-20241022\<close>, and the assistant turn stored has the model name
  \<open>haiku-4-5\<close>.
\<close>

theorem haiku_turn_records_registry_id:
  "filter is_StreamText (out_trace (POST ex_env ex_req ex_db_haiku)) =
     [StreamText (anthropic ''claude-3-5-haiku-20241022'') [(User, ''Hi'')] None]
   \<and> map msg_model_name (stored_rows Assistant ex_db_haiku (out_db (POST ex_env ex_req ex_db_haiku)))
       = [Some ''haiku-4-5'']"
proof -
  have f: "asst_insertError ex_env = False" "sdk_onFinish ex_env = Some ''Hello''"
    by (simp_all add: ex_env_def)
  have m: "th_model_id ex_thread_haiku = ''haiku-4-5''"
    by (simp add: ex_thread_haiku_def)
  show ?thesis
    by (simp add: POST_passes_checks[OF ex_haiku_passes_checks] provider_calls_run_chat
        stored_assistant_rows_run_chat f m ex_resolve ex_request_fields ex_project
        assistant_row_def Let_def)
qed

section \<open>Model resolution\<close>




end
